theory Spec2Isabelle
  imports Main "HOL-Library.Word"
begin

section \<open>Windows identifier spoofer: data model\<close>

text \<open>
  The sources are \<^verbatim>\<open>include/windows-spoofer.h\<close>, \<^verbatim>\<open>src/identifier-manager.cc\<close>,
  \<^verbatim>\<open>src/api-hooks.cc\<close> and \<^verbatim>\<open>src/spoofer.cc\<close>. All of the code is under
  \<^verbatim>\<open>#ifdef _WIN32\<close>, so the Windows data model applies: \<^verbatim>\<open>DWORD\<close>, \<^verbatim>\<open>ULONG\<close>,
  \<^verbatim>\<open>UINT\<close>, \<^verbatim>\<open>LONG\<close>, \<^verbatim>\<open>BOOL\<close> and \<^verbatim>\<open>unsigned long\<close> are 32 bits wide, \<^verbatim>\<open>BYTE\<close> is 8.
\<close>

type_synonym DWORD = "32 word"
type_synonym ULONG = "32 word"
type_synonym UINT = "32 word"
type_synonym LONG = "32 word"
type_synonym BOOL = "32 word"
type_synonym BYTE = "8 word"

text \<open>Handles and entry points are opaque addresses; a null one is \<open>None\<close>.\<close>

type_synonym HMODULE = nat
type_synonym HANDLE = nat
type_synonym FARPROC = nat

definition NO_ERROR :: "32 word" where
  "NO_ERROR = 0"

definition ERROR_SUCCESS :: "32 word" where
  "ERROR_SUCCESS = 0"

definition STILL_ACTIVE :: DWORD where
  "STILL_ACTIVE = 259"

record SpoofedIdentifiers =
  macAddress :: string
  diskSerial :: string
  volumeSerial :: string
  gpuId :: string
  biosSerial :: string
  motherboardSerial :: string
  active :: bool
  processId :: DWORD

text \<open>
  \<^verbatim>\<open>struct OriginalIdentifiers\<close> has the same six string members; its fields carry the
  prefix \<open>orig_\<close> here because two records cannot share field names.
\<close>

record OriginalIdentifiers =
  orig_macAddress :: string
  orig_diskSerial :: string
  orig_volumeSerial :: string
  orig_gpuId :: string
  orig_biosSerial :: string
  orig_motherboardSerial :: string

text \<open>
  The members of \<^verbatim>\<open>class WindowsSpoofer\<close> that the code reads or writes
  (\<^verbatim>\<open>m_originalFunctions\<close> and \<^verbatim>\<open>m_hookedModules\<close> are never touched).
\<close>

record WindowsSpoofer =
  m_currentSpoofed :: SpoofedIdentifiers
  m_originalValues :: OriginalIdentifiers
  m_initialized :: bool
  m_hooksInstalled :: bool
  m_targetProcessId :: DWORD

text \<open>Value initialisation \<^verbatim>\<open>= {}\<close> of the two structs.\<close>

definition empty_SpoofedIdentifiers :: SpoofedIdentifiers where
  "empty_SpoofedIdentifiers =
     \<lparr>macAddress = [], diskSerial = [], volumeSerial = [], gpuId = [], biosSerial = [],
      motherboardSerial = [], active = False, processId = 0\<rparr>"

definition empty_OriginalIdentifiers :: OriginalIdentifiers where
  "empty_OriginalIdentifiers =
     \<lparr>orig_macAddress = [], orig_diskSerial = [], orig_volumeSerial = [], orig_gpuId = [],
      orig_biosSerial = [], orig_motherboardSerial = []\<rparr>"

text \<open>The constructor \<^verbatim>\<open>WindowsSpoofer::WindowsSpoofer()\<close>.\<close>

definition new_WindowsSpoofer :: WindowsSpoofer where
  "new_WindowsSpoofer =
     \<lparr>m_currentSpoofed = empty_SpoofedIdentifiers, m_originalValues = empty_OriginalIdentifiers,
      m_initialized = False, m_hooksInstalled = False, m_targetProcessId = 0\<rparr>"

section \<open>Library routines the code relies on\<close>

subsection \<open>\<^verbatim>\<open>std::stoul(str, nullptr, 16)\<close>\<close>

text \<open>
  \<^verbatim>\<open>std::stoul\<close> calls \<^verbatim>\<open>strtoul\<close> on the string: leading white space is skipped, one
  optional sign is read, then an optional \<^verbatim>\<open>0x\<close>/\<^verbatim>\<open>0X\<close> prefix (base 16), then the
  longest run of hexadecimal digits. Characters after that run are ignored. With no digit
  at all it throws \<^verbatim>\<open>std::invalid_argument\<close>; with a value beyond \<^verbatim>\<open>unsigned long\<close>
  (32 bits here) it throws \<^verbatim>\<open>std::out_of_range\<close>; a minus sign negates the value in the
  unsigned type.
\<close>

datatype cxx_exception = invalid_argument | out_of_range

definition isspace :: "char \<Rightarrow> bool" where
  "isspace c = (c = CHR '' '' \<or> (9 :: nat) \<le> of_char c \<and> of_char c \<le> (13 :: nat))"

definition hex_digit :: "char \<Rightarrow> nat option" where
  "hex_digit c =
     (let n = (of_char c :: nat) in
      if 48 \<le> n \<and> n \<le> 57 then Some (n - 48)
      else if 65 \<le> n \<and> n \<le> 70 then Some (n - 55)
      else if 97 \<le> n \<and> n \<le> 102 then Some (n - 87)
      else None)"

definition isxdigit :: "char \<Rightarrow> bool" where
  "isxdigit c = (hex_digit c \<noteq> None)"

definition hex_value :: "string \<Rightarrow> nat" where
  "hex_value ds = foldl (\<lambda>a c. 16 * a + the (hex_digit c)) 0 ds"

definition skip_sign :: "string \<Rightarrow> bool \<times> string" where
  "skip_sign s =
     (case s of
        [] \<Rightarrow> (False, s)
      | c # r \<Rightarrow> if c = CHR ''-'' then (True, r) else if c = CHR ''+'' then (False, r)
                 else (False, s))"

definition skip_0x :: "string \<Rightarrow> string" where
  "skip_0x s =
     (case s of
        z # x # h # r \<Rightarrow>
          if z = CHR ''0'' \<and> (x = CHR ''x'' \<or> x = CHR ''X'') \<and> isxdigit h then h # r else s
      | _ \<Rightarrow> s)"

definition stoul :: "string \<Rightarrow> cxx_exception + 32 word" where
  "stoul str =
     (let (neg, s) = skip_sign (dropWhile isspace str);
          ds = takeWhile isxdigit (skip_0x s);
          v = hex_value ds
      in if ds = [] then Inl invalid_argument
         else if 2 ^ 32 \<le> v then Inl out_of_range
         else Inr (if neg then - word_of_nat v else word_of_nat v))"

text \<open>
  \<^verbatim>\<open>std::string::substr(pos, n)\<close>. It throws when \<open>pos\<close> is beyond the end; the only
  call is guarded by \<^verbatim>\<open>mac.length() >= 12\<close> with \<open>pos \<le> 10\<close>, so that branch is never
  taken there.
\<close>

definition substr :: "string \<Rightarrow> nat \<Rightarrow> nat \<Rightarrow> string" where
  "substr s pos n = take n (drop pos s)"

subsection \<open>Stream formatting\<close>

text \<open>
  \<^verbatim>\<open>ss << std::hex << n\<close> writes \<open>n\<close> in base 16 with no leading zeros, in lower case
  unless \<^verbatim>\<open>std::uppercase\<close> is set.
\<close>

definition digit_char :: "bool \<Rightarrow> nat \<Rightarrow> char" where
  "digit_char upper d =
     (if d < 10 then char_of (48 + d) else if upper then char_of (55 + d) else char_of (87 + d))"

function to_hex :: "bool \<Rightarrow> nat \<Rightarrow> string" where
  "to_hex upper n =
     (if n < 16 then [digit_char upper n]
      else to_hex upper (n div 16) @ [digit_char upper (n mod 16)])"
  by pat_completeness auto
termination
  by (relation "measure snd") auto

declare to_hex.simps [simp del]

text \<open>\<^verbatim>\<open>std::setfill('0') << std::setw(2)\<close> before a number: pad on the left to width 2.\<close>

definition setw2 :: "string \<Rightarrow> string" where
  "setw2 s = replicate (2 - length s) (CHR ''0'') @ s"

text \<open>\<^verbatim>\<open>::toupper\<close> in the C locale.\<close>

definition toupper :: "char \<Rightarrow> char" where
  "toupper c =
     (let n = (of_char c :: nat) in if 97 \<le> n \<and> n \<le> 122 then char_of (n - 32) else c)"

section \<open>The operating environment\<close>

text \<open>
  The arguments of a volume-information call together with the contents of the buffers
  they point to; a null pointer is \<open>None\<close>.
\<close>

record volume_call =
  lpRootPathName :: "string option"
  lpVolumeNameBuffer :: "string option"
  nVolumeNameSize :: DWORD
  lpVolumeSerialNumber :: "DWORD option"
  lpMaximumComponentLength :: "DWORD option"
  lpFileSystemFlags :: "DWORD option"
  lpFileSystemNameBuffer :: "string option"
  nFileSystemNameSize :: DWORD

text \<open>
  An adapter record. \<^verbatim>\<open>Address\<close> is \<^verbatim>\<open>BYTE[MAX_ADAPTER_ADDRESS_LENGTH]\<close>, eight bytes.
  The \<^verbatim>\<open>Next\<close> link is the tail of the list that holds the record, and a null
  \<^verbatim>\<open>PIP_ADAPTER_INFO\<close> is the empty list.
\<close>

record IP_ADAPTER_INFO =
  AdapterName :: string
  Description :: string
  AddressLength :: UINT
  Address :: "BYTE list"

definition MAX_ADAPTER_ADDRESS_LENGTH :: nat where
  "MAX_ADAPTER_ADDRESS_LENGTH = 8"

record adapters_call =
  AdapterInfo :: "IP_ADAPTER_INFO list"
  SizePointer :: "ULONG option"

text \<open>
  What the system answers at the time of a call: module and entry-point lookup, the result
  the Detours commit returns, the process table, and the two real identity queries, which
  map a call to its result code and the memory after it. \<open>sizeof_IP_ADAPTER_INFO\<close> is the
  platform's size of one adapter record.
\<close>

record os =
  GetModuleHandleA :: "string \<Rightarrow> HMODULE option"
  GetProcAddress :: "HMODULE \<Rightarrow> string \<Rightarrow> FARPROC option"
  DetourTransactionCommit_result :: LONG
  OpenProcess :: "DWORD \<Rightarrow> HANDLE option"
  GetExitCodeProcess :: "HANDLE \<Rightarrow> BOOL \<times> DWORD"
  real_GetVolumeInformationA :: "volume_call \<Rightarrow> BOOL \<times> volume_call"
  real_GetAdaptersInfo :: "adapters_call \<Rightarrow> DWORD \<times> adapters_call"
  sizeof_IP_ADAPTER_INFO :: ULONG

subsection \<open>The Detours transaction\<close>

text \<open>
  The process-wide table of redirected entry points. A transaction collects attach and
  detach requests; \<^verbatim>\<open>DetourTransactionCommit\<close> applies all of them when it returns
  \<^verbatim>\<open>NO_ERROR\<close> and none of them otherwise. Every commit is logged with its requests and
  its result.
\<close>

datatype hook = Hook_GetVolumeInformationA | Hook_GetAdaptersInfo

datatype detour_op = DetourAttach hook | DetourDetach hook

record detours =
  redirected :: "hook set"
  transactions :: "(detour_op list \<times> LONG) list"

fun apply_detour_op :: "hook set \<Rightarrow> detour_op \<Rightarrow> hook set" where
  "apply_detour_op R (DetourAttach h) = insert h R"
| "apply_detour_op R (DetourDetach h) = R - {h}"

definition DetourTransactionCommit :: "os \<Rightarrow> detour_op list \<Rightarrow> detours \<Rightarrow> LONG \<times> detours" where
  "DetourTransactionCommit env ops d =
     (let rc = DetourTransactionCommit_result env in
      (rc, \<lparr>redirected = (if rc = NO_ERROR then foldl apply_detour_op (redirected d) ops
                           else redirected d),
            transactions = transactions d @ [(ops, rc)]\<rparr>))"

subsection \<open>File-level state of \<^verbatim>\<open>api-hooks.cc\<close>\<close>

text \<open>
  \<open>g_spooferInstance\<close> is either null (\<open>False\<close>) or the address of the controller the
  operations run on (\<open>True\<close>): \<^verbatim>\<open>InstallHooks\<close> stores \<^verbatim>\<open>this\<close> and nothing else ever
  is stored. The two function pointers are kept as the real entry point they lead to
  (Detours rewrites them to a trampoline that reaches the same entry point); the code only
  tests them against null and calls through them.
\<close>

record globals =
  g_spooferInstance :: bool
  g_originalGetVolumeInformationA :: "FARPROC option"
  g_originalGetAdaptersInfo :: "FARPROC option"
  detour_table :: detours

definition initial_globals :: globals where
  "initial_globals =
     \<lparr>g_spooferInstance = False, g_originalGetVolumeInformationA = None,
      g_originalGetAdaptersInfo = None,
      detour_table = \<lparr>redirected = {}, transactions = []\<rparr>\<rparr>"

section \<open>\<^verbatim>\<open>identifier-manager.cc\<close>: status\<close>

definition IsProcessAlive :: "os \<Rightarrow> DWORD \<Rightarrow> bool" where
  "IsProcessAlive env pid =
     (case OpenProcess env pid of
        Some hProcess \<Rightarrow>
          (let (ok, exitCode) = GetExitCodeProcess env hProcess
           in ok \<noteq> 0 \<and> exitCode = STILL_ACTIVE)
      | None \<Rightarrow> False)"

definition IsSpoofingActive :: "os \<Rightarrow> WindowsSpoofer \<Rightarrow> bool" where
  "IsSpoofingActive env this =
     (m_initialized this \<and> active (m_currentSpoofed this)
      \<and> IsProcessAlive env (m_targetProcessId this))"

definition GetCurrentSpoofedValues :: "WindowsSpoofer \<Rightarrow> SpoofedIdentifiers" where
  "GetCurrentSpoofedValues this = m_currentSpoofed this"

section \<open>\<^verbatim>\<open>api-hooks.cc\<close>: the two interception handlers\<close>

text \<open>
  \<open>this\<close> is the object \<open>g_spooferInstance\<close> points to; it is read only when that pointer
  is not null. The call through \<open>g_originalGetVolumeInformationA\<close> (or
  \<open>g_originalGetAdaptersInfo\<close>) is the real query of the environment. The tests
  \<^verbatim>\<open>lpVolumeSerialNumber\<close> and \<^verbatim>\<open>AdapterInfo\<close> of the handlers are on the pointers the
  caller passed; what the handlers read and write is the memory the real call leaves.
\<close>

definition HookedGetVolumeInformationA ::
  "os \<Rightarrow> globals \<Rightarrow> WindowsSpoofer \<Rightarrow> volume_call \<Rightarrow> BOOL \<times> volume_call" where
  "HookedGetVolumeInformationA env g this call =
     (let (result, mem) = real_GetVolumeInformationA env call
      in if g_spooferInstance g \<and> IsSpoofingActive env this \<and> lpVolumeSerialNumber call \<noteq> None
         then
           (let current = GetCurrentSpoofedValues this
            in if volumeSerial current \<noteq> []
               then (case stoul (volumeSerial current) of
                       Inr spoofedSerial \<Rightarrow>
                         (result, mem\<lparr>lpVolumeSerialNumber := Some spoofedSerial\<rparr>)
                     | Inl e \<Rightarrow> (result, mem))
               else (result, mem))
         else (result, mem))"

text \<open>
  The \<^verbatim>\<open>for\<close> loop over the bytes of one record: \<^verbatim>\<open>int i\<close> is compared with the unsigned
  \<^verbatim>\<open>AddressLength\<close>; a failed conversion leaves the loop.
\<close>

function spoof_bytes :: "string \<Rightarrow> UINT \<Rightarrow> nat \<Rightarrow> BYTE list \<Rightarrow> BYTE list" where
  "spoof_bytes mac len i addr =
     (if i < 6 \<and> i < unat len
      then (case stoul (substr mac (i * 2) 2) of
              Inr v \<Rightarrow> spoof_bytes mac len (i + 1) (addr[i := ucast v])
            | Inl e \<Rightarrow> addr)
      else addr)"
  by pat_completeness auto
termination
  by (relation "measure (\<lambda>(mac, len, i, addr). 6 - i)") auto

declare spoof_bytes.simps [simp del]

text \<open>The \<^verbatim>\<open>while (pAdapter)\<close> loop along the \<^verbatim>\<open>Next\<close> links.\<close>

fun spoof_adapters :: "string \<Rightarrow> IP_ADAPTER_INFO list \<Rightarrow> IP_ADAPTER_INFO list" where
  "spoof_adapters mac [] = []"
| "spoof_adapters mac (pAdapter # Next) =
     (if 12 \<le> length mac
      then pAdapter\<lparr>Address := spoof_bytes mac (AddressLength pAdapter) 0 (Address pAdapter)\<rparr>
      else pAdapter) # spoof_adapters mac Next"

definition HookedGetAdaptersInfo ::
  "os \<Rightarrow> globals \<Rightarrow> WindowsSpoofer \<Rightarrow> adapters_call \<Rightarrow> DWORD \<times> adapters_call" where
  "HookedGetAdaptersInfo env g this call =
     (let (result, mem) = real_GetAdaptersInfo env call
      in if g_spooferInstance g \<and> IsSpoofingActive env this \<and> result = NO_ERROR
            \<and> AdapterInfo call \<noteq> []
         then
           (let current = GetCurrentSpoofedValues this
            in if macAddress current \<noteq> []
               then (result, mem\<lparr>AdapterInfo := spoof_adapters (macAddress current) (AdapterInfo mem)\<rparr>)
               else (result, mem))
         else (result, mem))"

text \<open>
  A call of the two queries from inside this process: Detours patches the entry point
  itself, so the call reaches the handler whenever the redirection is in the table.
\<close>

definition GetVolumeInformationA ::
  "os \<Rightarrow> globals \<Rightarrow> WindowsSpoofer \<Rightarrow> volume_call \<Rightarrow> BOOL \<times> volume_call" where
  "GetVolumeInformationA env g this call =
     (if Hook_GetVolumeInformationA \<in> redirected (detour_table g)
      then HookedGetVolumeInformationA env g this call
      else real_GetVolumeInformationA env call)"

definition GetAdaptersInfo ::
  "os \<Rightarrow> globals \<Rightarrow> WindowsSpoofer \<Rightarrow> adapters_call \<Rightarrow> DWORD \<times> adapters_call" where
  "GetAdaptersInfo env g this call =
     (if Hook_GetAdaptersInfo \<in> redirected (detour_table g)
      then HookedGetAdaptersInfo env g this call
      else real_GetAdaptersInfo env call)"

section \<open>\<^verbatim>\<open>api-hooks.cc\<close>: installing and removing the redirections\<close>

text \<open>
  Both operations return their result with the file-level state and the object after the
  call. The parameter \<^verbatim>\<open>processId\<close> of \<^verbatim>\<open>InstallHooks\<close>, here \<open>pid\<close>, is not used by
  the code.
\<close>

definition InstallHooks ::
  "os \<Rightarrow> DWORD \<Rightarrow> globals \<Rightarrow> WindowsSpoofer \<Rightarrow> bool \<times> globals \<times> WindowsSpoofer" where
  "InstallHooks env pid g this =
     (if m_hooksInstalled this then (True, g, this)
      else
        (let g1 = g\<lparr>g_spooferInstance := True\<rparr>;
             hKernel32 = GetModuleHandleA env ''kernel32.dll'';
             hIphlpapi = GetModuleHandleA env ''iphlpapi.dll''
         in case hKernel32 of
              None \<Rightarrow> (False, g1, this)
            | Some k \<Rightarrow>
                (let g2 = g1\<lparr>g_originalGetVolumeInformationA :=
                              GetProcAddress env k ''GetVolumeInformationA''\<rparr>;
                     g3 = (case hIphlpapi of
                             Some i \<Rightarrow> g2\<lparr>g_originalGetAdaptersInfo :=
                                            GetProcAddress env i ''GetAdaptersInfo''\<rparr>
                           | None \<Rightarrow> g2)
                 in if g_originalGetVolumeInformationA g3 = None then (False, g3, this)
                    else
                      (let ops = (if g_originalGetVolumeInformationA g3 \<noteq> None
                                  then [DetourAttach Hook_GetVolumeInformationA] else [])
                                 @ (if g_originalGetAdaptersInfo g3 \<noteq> None
                                    then [DetourAttach Hook_GetAdaptersInfo] else []);
                           (result, d) = DetourTransactionCommit env ops (detour_table g3);
                           g4 = g3\<lparr>detour_table := d\<rparr>
                       in if result = NO_ERROR then (True, g4, this\<lparr>m_hooksInstalled := True\<rparr>)
                          else (False, g4, this)))))"

definition RemoveHooks :: "os \<Rightarrow> globals \<Rightarrow> WindowsSpoofer \<Rightarrow> bool \<times> globals \<times> WindowsSpoofer" where
  "RemoveHooks env g this =
     (if \<not> m_hooksInstalled this then (True, g, this)
      else
        (let ops = (if g_originalGetVolumeInformationA g \<noteq> None
                    then [DetourDetach Hook_GetVolumeInformationA] else [])
                   @ (if g_originalGetAdaptersInfo g \<noteq> None
                      then [DetourDetach Hook_GetAdaptersInfo] else []);
             (result, d) = DetourTransactionCommit env ops (detour_table g);
             g1 = g\<lparr>detour_table := d\<rparr>
         in if result = NO_ERROR
            then (True, g1\<lparr>g_spooferInstance := False\<rparr>, this\<lparr>m_hooksInstalled := False\<rparr>)
            else (False, g1, this)))"

section \<open>\<^verbatim>\<open>identifier-manager.cc\<close>: the controller\<close>

subsection \<open>Capturing the original identifiers\<close>

definition blank_adapter :: IP_ADAPTER_INFO where
  "blank_adapter =
     \<lparr>AdapterName = [], Description = [], AddressLength = 0,
      Address = replicate MAX_ADAPTER_ADDRESS_LENGTH 0\<rparr>"

text \<open>
  The local array \<^verbatim>\<open>adapterInfo[16]\<close> is passed with its size; its records are not
  initialised by the code, and the query overwrites them.
\<close>

definition GetCurrentMacAddress :: "os \<Rightarrow> globals \<Rightarrow> WindowsSpoofer \<Rightarrow> string" where
  "GetCurrentMacAddress env g this =
     (let bufLen = 16 * sizeof_IP_ADAPTER_INFO env;
          (status, mem) = GetAdaptersInfo env g this
                            \<lparr>AdapterInfo = replicate 16 blank_adapter, SizePointer = Some bufLen\<rparr>;
          bufLen = (case SizePointer mem of Some n \<Rightarrow> n | None \<Rightarrow> bufLen)
      in if status = ERROR_SUCCESS \<and> 0 < bufLen
         then (case AdapterInfo mem of
                 pAdapter # Next \<Rightarrow>
                   if AddressLength pAdapter = 6
                   then map toupper
                          (concat (map (\<lambda>i. (if 0 < i then '':'' else [])
                                              @ setw2 (to_hex False (unat (Address pAdapter ! i))))
                                       [0..<unat (AddressLength pAdapter)]))
                   else ''00:00:00:00:00:00''
               | [] \<Rightarrow> ''00:00:00:00:00:00'')
         else ''00:00:00:00:00:00'')"

text \<open>The root path is \<^verbatim>\<open>C:\\<close>: the letter, a colon and a backslash (code 92).\<close>

definition GetCurrentVolumeSerial :: "os \<Rightarrow> globals \<Rightarrow> WindowsSpoofer \<Rightarrow> string" where
  "GetCurrentVolumeSerial env g this =
     (let (ok, mem) = GetVolumeInformationA env g this
                        \<lparr>lpRootPathName = Some [CHR ''C'', CHR '':'', char_of (92 :: nat)],
                         lpVolumeNameBuffer = None, nVolumeNameSize = 0,
                         lpVolumeSerialNumber = Some 0, lpMaximumComponentLength = None,
                         lpFileSystemFlags = None, lpFileSystemNameBuffer = None,
                         nFileSystemNameSize = 0\<rparr>;
          serial = (case lpVolumeSerialNumber mem of Some v \<Rightarrow> v | None \<Rightarrow> 0)
      in if ok \<noteq> 0 then to_hex True (unat serial) else ''00000000'')"

definition GetCurrentDiskSerial :: string where
  "GetCurrentDiskSerial = ''DISK_SERIAL_123''"

definition GetOriginalIdentifiers :: "os \<Rightarrow> globals \<Rightarrow> WindowsSpoofer \<Rightarrow> OriginalIdentifiers" where
  "GetOriginalIdentifiers env g this =
     \<lparr>orig_macAddress = GetCurrentMacAddress env g this,
      orig_diskSerial = GetCurrentDiskSerial,
      orig_volumeSerial = GetCurrentVolumeSerial env g this,
      orig_gpuId = ''ORIGINAL_GPU'',
      orig_biosSerial = ''ORIGINAL_BIOS'',
      orig_motherboardSerial = ''ORIGINAL_MB''\<rparr>"

subsection \<open>Placeholders that always succeed\<close>

definition CanSafeMacSpoof :: "WindowsSpoofer \<Rightarrow> bool" where
  "CanSafeMacSpoof this = True"

definition ApplyMacSpoofing :: "WindowsSpoofer \<Rightarrow> string \<Rightarrow> bool" where
  "ApplyMacSpoofing this newMac = True"

definition SpoofVolumeSerial :: "WindowsSpoofer \<Rightarrow> string \<Rightarrow> bool" where
  "SpoofVolumeSerial this newSerial = True"

definition SpoofDiskSerial :: "WindowsSpoofer \<Rightarrow> string \<Rightarrow> bool" where
  "SpoofDiskSerial this newSerial = True"

definition SpoofGpuId :: "WindowsSpoofer \<Rightarrow> string \<Rightarrow> bool" where
  "SpoofGpuId this newId = True"

definition SpoofWmiData :: "WindowsSpoofer \<Rightarrow> string \<Rightarrow> string \<Rightarrow> bool" where
  "SpoofWmiData this bios mb = True"

subsection \<open>Initialize, apply, restore, cleanup\<close>

definition SetupProcessMonitoring :: "DWORD \<Rightarrow> WindowsSpoofer \<Rightarrow> WindowsSpoofer" where
  "SetupProcessMonitoring pid this = this\<lparr>m_targetProcessId := pid\<rparr>"

definition InitializeForProcess ::
  "os \<Rightarrow> DWORD \<Rightarrow> globals \<Rightarrow> WindowsSpoofer \<Rightarrow> bool \<times> globals \<times> WindowsSpoofer" where
  "InitializeForProcess env pid g this =
     (if m_initialized this \<and> m_targetProcessId this = pid then (True, g, this)
      else
        (let this1 = this\<lparr>m_originalValues := GetOriginalIdentifiers env g this\<rparr>;
             this2 = this1\<lparr>m_targetProcessId := pid\<rparr>;
             this3 = this2\<lparr>m_initialized := True\<rparr>;
             this4 = SetupProcessMonitoring pid this3
         in (True, g, this4)))"

definition ApplySpoofing ::
  "os \<Rightarrow> SpoofedIdentifiers \<Rightarrow> globals \<Rightarrow> WindowsSpoofer \<Rightarrow> bool \<times> globals \<times> WindowsSpoofer" where
  "ApplySpoofing env identifiers g this =
     (if \<not> m_initialized this then (False, g, this)
      else
        (let this1 = this\<lparr>m_currentSpoofed := identifiers\<rparr>;
             this2 = this1\<lparr>m_currentSpoofed :=
                            (m_currentSpoofed this1)\<lparr>processId := m_targetProcessId this1\<rparr>\<rparr>;
             this3 = this2\<lparr>m_currentSpoofed := (m_currentSpoofed this2)\<lparr>active := True\<rparr>\<rparr>;
             (installed, g', this4) = InstallHooks env (m_targetProcessId this3) g this3
         in if \<not> installed
            then (False, g', this4\<lparr>m_currentSpoofed := (m_currentSpoofed this4)\<lparr>active := False\<rparr>\<rparr>)
            else
              (let success = True;
                   success = (if macAddress identifiers \<noteq> [] \<and> CanSafeMacSpoof this4
                              then success \<and> ApplyMacSpoofing this4 (macAddress identifiers)
                              else success);
                   success = (if volumeSerial identifiers \<noteq> []
                              then success \<and> SpoofVolumeSerial this4 (volumeSerial identifiers)
                              else success);
                   success = (if diskSerial identifiers \<noteq> []
                              then success \<and> SpoofDiskSerial this4 (diskSerial identifiers)
                              else success);
                   success = (if gpuId identifiers \<noteq> []
                              then success \<and> SpoofGpuId this4 (gpuId identifiers)
                              else success);
                   success = (if biosSerial identifiers \<noteq> [] \<or> motherboardSerial identifiers \<noteq> []
                              then success \<and> SpoofWmiData this4 (biosSerial identifiers)
                                                  (motherboardSerial identifiers)
                              else success)
               in (success, g', this4))))"

text \<open>The result of \<^verbatim>\<open>RemoveHooks()\<close> is dropped by the caller.\<close>

definition RestoreOriginalValues ::
  "os \<Rightarrow> globals \<Rightarrow> WindowsSpoofer \<Rightarrow> bool \<times> globals \<times> WindowsSpoofer" where
  "RestoreOriginalValues env g this =
     (if \<not> m_initialized this \<or> \<not> active (m_currentSpoofed this) then (True, g, this)
      else
        (let (removed, g', this1) = RemoveHooks env g this
         in (True, g', this1\<lparr>m_currentSpoofed := (m_currentSpoofed this1)\<lparr>active := False\<rparr>\<rparr>)))"

definition Cleanup :: "os \<Rightarrow> globals \<Rightarrow> WindowsSpoofer \<Rightarrow> globals \<times> WindowsSpoofer" where
  "Cleanup env g this =
     (if m_initialized this
      then (let (restored, g', this1) = RestoreOriginalValues env g this;
                this2 = this1\<lparr>m_initialized := False\<rparr>;
                this3 = this2\<lparr>m_targetProcessId := 0\<rparr>
            in (g', this3))
      else (g, this))"

subsection \<open>Random identifiers\<close>

text \<open>
  Each generator call seeds its own engine and draws from a
  \<^verbatim>\<open>uniform_int_distribution<>\<close>. The draws are an input of the model, \<open>dis i\<close> being the
  \<open>i\<close>-th one: the values of the distribution over \<open>[0, 255]\<close> are exactly the 8-bit values
  and those of the distribution over \<open>[0, 15]\<close> exactly the 4-bit values.
\<close>

definition GenerateRandomMac :: "(nat \<Rightarrow> 8 word) \<Rightarrow> string" where
  "GenerateRandomMac dis =
     map toupper
       (concat (map (\<lambda>i. (if 0 < i then '':'' else []) @ setw2 (to_hex False (unat (dis i))))
                    [0..<6]))"

definition GenerateRandomSerial :: "(nat \<Rightarrow> 4 word) \<Rightarrow> int \<Rightarrow> string" where
  "GenerateRandomSerial dis len =
     concat (map (\<lambda>i. to_hex True (unat (dis i))) [0..<nat len])"

record random_draws =
  mac_draws :: "nat \<Rightarrow> 8 word"
  disk_draws :: "nat \<Rightarrow> 4 word"
  volume_draws :: "nat \<Rightarrow> 4 word"
  gpu_draws :: "nat \<Rightarrow> 4 word"
  bios_draws :: "nat \<Rightarrow> 4 word"
  motherboard_draws :: "nat \<Rightarrow> 4 word"

definition GenerateRandomIdentifiers :: "random_draws \<Rightarrow> SpoofedIdentifiers" where
  "GenerateRandomIdentifiers rd =
     (let identifiers = empty_SpoofedIdentifiers;
          identifiers = identifiers\<lparr>macAddress := GenerateRandomMac (mac_draws rd)\<rparr>;
          identifiers = identifiers\<lparr>diskSerial := GenerateRandomSerial (disk_draws rd) 16\<rparr>;
          identifiers = identifiers\<lparr>volumeSerial := GenerateRandomSerial (volume_draws rd) 8\<rparr>;
          identifiers = identifiers\<lparr>gpuId := GenerateRandomSerial (gpu_draws rd) 12\<rparr>;
          identifiers = identifiers\<lparr>biosSerial := GenerateRandomSerial (bios_draws rd) 10\<rparr>;
          identifiers = identifiers\<lparr>motherboardSerial :=
                                      GenerateRandomSerial (motherboard_draws rd) 14\<rparr>;
          identifiers = identifiers\<lparr>active := False\<rparr>;
          identifiers = identifiers\<lparr>processId := 0\<rparr>
      in identifiers)"

section \<open>\<^verbatim>\<open>spoofer.cc\<close>: the operations exposed to the host\<close>

text \<open>
  A call receives the argument list \<open>info\<close> and either throws a JavaScript exception
  (\<open>Inl\<close>) or sets a return value (\<open>Inr\<close>). The module keeps one controller in
  \<^verbatim>\<open>g_spoofer\<close>, \<open>None\<close> while the pointer is empty. An object argument is represented by
  its properties, each with the UTF-8 text \<^verbatim>\<open>Utf8Value\<close> gives for its value; a number by
  the integer \<^verbatim>\<open>Nan::To<uint32_t>\<close> reduces modulo \<open>2 ^ 32\<close>.
\<close>

datatype js_value =
  JSUndefined | JSBoolean bool | JSNumber int | JSString string | JSObject "(string \<times> string) list"

datatype js_exception = JSError string | JSTypeError string

type_synonym module_state = "globals \<times> WindowsSpoofer option"

type_synonym nan_result = "(js_exception + js_value) \<times> module_state"

definition NAN_InitializeForProcess :: "os \<Rightarrow> js_value list \<Rightarrow> module_state \<Rightarrow> nan_result" where
  "NAN_InitializeForProcess env info st =
     (let (g, g_spoofer) = st
      in case info of
           JSNumber n # rest \<Rightarrow>
             (let pid = (word_of_int n :: DWORD);
                  this = (case g_spoofer of None \<Rightarrow> new_WindowsSpoofer | Some sp \<Rightarrow> sp);
                  (success, g', this') = InitializeForProcess env pid g this
              in (Inr (JSBoolean success), g', Some this'))
         | _ \<Rightarrow> (Inl (JSTypeError ''Process ID required''), st))"

definition object_field :: "(string \<times> string) list \<Rightarrow> string \<Rightarrow> string" where
  "object_field obj key = (case map_of obj key of Some v \<Rightarrow> v | None \<Rightarrow> [])"

definition NAN_ApplySpoofing :: "os \<Rightarrow> js_value list \<Rightarrow> module_state \<Rightarrow> nan_result" where
  "NAN_ApplySpoofing env info st =
     (let (g, g_spoofer) = st
      in case g_spoofer of
           None \<Rightarrow> (Inl (JSError ''Spoofer not initialized''), st)
         | Some this \<Rightarrow>
             (case info of
                JSObject identifiersObj # rest \<Rightarrow>
                  (let identifiers =
                         empty_SpoofedIdentifiers
                           \<lparr>active := True,
                            macAddress := object_field identifiersObj ''macAddress'',
                            diskSerial := object_field identifiersObj ''diskSerial'',
                            volumeSerial := object_field identifiersObj ''volumeSerial'',
                            gpuId := object_field identifiersObj ''gpuId'',
                            biosSerial := object_field identifiersObj ''biosSerial'',
                            motherboardSerial := object_field identifiersObj ''motherboardSerial''\<rparr>;
                       (success, g', this') = ApplySpoofing env identifiers g this
                   in (Inr (JSBoolean success), g', Some this'))
              | _ \<Rightarrow> (Inl (JSTypeError ''Identifiers object required''), st)))"

definition NAN_GenerateRandomIdentifiers :: "random_draws \<Rightarrow> module_state \<Rightarrow> nan_result" where
  "NAN_GenerateRandomIdentifiers rd st =
     (let (g, g_spoofer) = st;
          this = (case g_spoofer of None \<Rightarrow> new_WindowsSpoofer | Some sp \<Rightarrow> sp);
          identifiers = GenerateRandomIdentifiers rd
      in (Inr (JSObject
                 [(''macAddress'', macAddress identifiers),
                  (''diskSerial'', diskSerial identifiers),
                  (''volumeSerial'', volumeSerial identifiers),
                  (''gpuId'', gpuId identifiers),
                  (''biosSerial'', biosSerial identifiers),
                  (''motherboardSerial'', motherboardSerial identifiers)]),
          g, Some this))"

definition NAN_RestoreOriginalIdentifiers :: "os \<Rightarrow> module_state \<Rightarrow> nan_result" where
  "NAN_RestoreOriginalIdentifiers env st =
     (let (g, g_spoofer) = st
      in case g_spoofer of
           None \<Rightarrow> (Inl (JSError ''Spoofer not initialized''), st)
         | Some this \<Rightarrow>
             (let (success, g', this') = RestoreOriginalValues env g this
              in (Inr (JSBoolean success), g', Some this')))"

text \<open>
  \<^verbatim>\<open>g_spoofer.reset()\<close> runs the destructor, which calls \<^verbatim>\<open>Cleanup()\<close> once more, and
  then the object is gone.
\<close>

definition NAN_Cleanup :: "os \<Rightarrow> module_state \<Rightarrow> nan_result" where
  "NAN_Cleanup env st =
     (let (g, g_spoofer) = st
      in case g_spoofer of
           Some this \<Rightarrow>
             (let (g1, this1) = Cleanup env g this;
                  (g2, this2) = Cleanup env g1 this1
              in (Inr (JSBoolean True), g2, None))
         | None \<Rightarrow> (Inr (JSBoolean True), g, None))"

section \<open>A concrete environment and run\<close>

text \<open>
  A machine with both modules loaded, two adapters (the second with a four-byte address),
  volume serial \<open>0xCAFEBABE\<close>, and process 1234 running.
\<close>

definition two_adapters :: "IP_ADAPTER_INFO list" where
  "two_adapters =
     [\<lparr>AdapterName = ''eth0'', Description = ''Ethernet'', AddressLength = 6,
       Address = [0x00, 0x11, 0x22, 0x33, 0x44, 0x55, 0, 0]\<rparr>,
      \<lparr>AdapterName = ''tun0'', Description = ''Tunnel'', AddressLength = 4,
       Address = [0x0A, 0x0B, 0x0C, 0x0D, 0, 0, 0, 0]\<rparr>]"

definition demo_os :: os where
  "demo_os =
     \<lparr>GetModuleHandleA = (\<lambda>n. if n = ''kernel32.dll'' then Some 1
                               else if n = ''iphlpapi.dll'' then Some 2 else None),
      GetProcAddress = (\<lambda>m n. if m = 1 \<and> n = ''GetVolumeInformationA'' then Some 100
                               else if m = 2 \<and> n = ''GetAdaptersInfo'' then Some 200
                               else None),
      DetourTransactionCommit_result = 0,
      OpenProcess = (\<lambda>pid. if pid = 1234 then Some 7 else None),
      GetExitCodeProcess = (\<lambda>h. (1, 259)),
      real_GetVolumeInformationA =
        (\<lambda>c. (1, c\<lparr>lpVolumeSerialNumber :=
                        map_option (\<lambda>v. 0xCAFEBABE) (lpVolumeSerialNumber c)\<rparr>)),
      real_GetAdaptersInfo = (\<lambda>c. (0, c\<lparr>AdapterInfo := two_adapters\<rparr>)),
      sizeof_IP_ADAPTER_INFO = 640\<rparr>"

text \<open>The same machine when the Detours commit fails, and after process 1234 has gone.\<close>

definition demo_os_commit_fails :: os where
  "demo_os_commit_fails = demo_os\<lparr>DetourTransactionCommit_result := 5\<rparr>"

definition demo_os_process_gone :: os where
  "demo_os_process_gone = demo_os\<lparr>OpenProcess := (\<lambda>pid. None)\<rparr>"

definition demo_identifiers :: SpoofedIdentifiers where
  "demo_identifiers =
     empty_SpoofedIdentifiers\<lparr>macAddress := ''AABBCCDDEEFF'', volumeSerial := ''DEADBEEF''\<rparr>"

text \<open>The state after \<open>initializeForProcess(1234)\<close>, and after a following apply.\<close>

definition demo_initialized :: "globals \<times> WindowsSpoofer" where
  "demo_initialized =
     snd (InitializeForProcess demo_os 1234 initial_globals new_WindowsSpoofer)"

definition demo_applied :: "globals \<times> WindowsSpoofer" where
  "demo_applied =
     snd (ApplySpoofing demo_os demo_identifiers (fst demo_initialized) (snd demo_initialized))"

definition demo_volume_call :: volume_call where
  "demo_volume_call =
     \<lparr>lpRootPathName = Some ''C:'', lpVolumeNameBuffer = None, nVolumeNameSize = 0,
      lpVolumeSerialNumber = Some 0, lpMaximumComponentLength = None,
      lpFileSystemFlags = None, lpFileSystemNameBuffer = None, nFileSystemNameSize = 0\<rparr>"

definition demo_adapters_call :: adapters_call where
  "demo_adapters_call = \<lparr>AdapterInfo = replicate 2 blank_adapter, SizePointer = Some 1280\<rparr>"

text \<open>The same machine with both identity queries failing and no process at all.\<close>

definition demo_os_queries_fail :: os where
  "demo_os_queries_fail =
     demo_os\<lparr>OpenProcess := (\<lambda>pid. None),
             real_GetVolumeInformationA := (\<lambda>c. (0, c)),
             real_GetAdaptersInfo := (\<lambda>c. (232, c))\<rparr>"

text \<open>
  The same machine with neither module loaded, and with only \<^verbatim>\<open>kernel32.dll\<close> loaded
  (with a commit that succeeds, and with one that fails).
\<close>

definition demo_os_no_modules :: os where
  "demo_os_no_modules = demo_os\<lparr>GetModuleHandleA := (\<lambda>n. None)\<rparr>"

definition demo_os_no_iphlpapi :: os where
  "demo_os_no_iphlpapi =
     demo_os\<lparr>GetModuleHandleA := (\<lambda>n. if n = ''kernel32.dll'' then Some 1 else None)\<rparr>"

definition demo_os_no_iphlpapi_commit_fails :: os where
  "demo_os_no_iphlpapi_commit_fails = demo_os_no_iphlpapi\<lparr>DetourTransactionCommit_result := 5\<rparr>"

text \<open>
  The state after \<open>initializeForProcess(1234)\<close> and an apply of the given identifiers on
  the concrete machine; \<open>volume_only s\<close> is the set that only carries volume serial \<open>s\<close>,
  \<open>mac_only s\<close> the one that only carries hardware address \<open>s\<close>.
\<close>

definition demo_apply :: "SpoofedIdentifiers \<Rightarrow> globals \<times> WindowsSpoofer" where
  "demo_apply identifiers =
     snd (ApplySpoofing demo_os identifiers (fst demo_initialized) (snd demo_initialized))"

definition volume_only :: "string \<Rightarrow> SpoofedIdentifiers" where
  "volume_only s = empty_SpoofedIdentifiers\<lparr>volumeSerial := s\<rparr>"

definition mac_only :: "string \<Rightarrow> SpoofedIdentifiers" where
  "mac_only s = empty_SpoofedIdentifiers\<lparr>macAddress := s\<rparr>"

section \<open>The owner invariant of the data model\<close>

text \<open>
  The data-model invariant on the owner of a live spoof set: while the set is flagged
  active, its \<open>processId\<close> is the controller's target process id, which is the id of the
  latest initialize call.
\<close>

definition owner_matches :: "WindowsSpoofer \<Rightarrow> bool" where
  "owner_matches this =
     (active (m_currentSpoofed this) \<longrightarrow> processId (m_currentSpoofed this) = m_targetProcessId this)"

section \<open>Formats of the generated identifiers\<close>

text \<open>
  An upper-case hexadecimal digit is one of \<open>0\<close> to \<open>9\<close> (codes 48 to 57) or \<open>A\<close> to \<open>F\<close>
  (codes 65 to 70). \<open>hex_groups n\<close> holds of \<open>n\<close> groups of two such digits separated by
  colons; the hardware-address pattern \<open>XX:XX:XX:XX:XX:XX\<close> is six groups.
\<close>

definition upper_hex_digit :: "char \<Rightarrow> bool" where
  "upper_hex_digit c =
     (let n = (of_char c :: nat) in 48 \<le> n \<and> n \<le> 57 \<or> 65 \<le> n \<and> n \<le> 70)"

fun hex_groups :: "nat \<Rightarrow> string \<Rightarrow> bool" where
  "hex_groups 0 s = False"
| "hex_groups (Suc 0) s =
     (case s of [a, b] \<Rightarrow> upper_hex_digit a \<and> upper_hex_digit b | _ \<Rightarrow> False)"
| "hex_groups (Suc (Suc n)) s =
     (case s of
        a # b # c # r \<Rightarrow>
          upper_hex_digit a \<and> upper_hex_digit b \<and> c = CHR '':'' \<and> hex_groups (Suc n) r
      | _ \<Rightarrow> False)"

definition mac_pattern :: "string \<Rightarrow> bool" where
  "mac_pattern s = hex_groups 6 s"

section \<open>Valid hexadecimal strings\<close>

text \<open>
  A string is called valid hexadecimal when it is not empty and all of its characters are
  hexadecimal digits.
\<close>

definition valid_hex :: "string \<Rightarrow> bool" where
  "valid_hex s = (s \<noteq> [] \<and> list_all isxdigit s)"

section \<open>Helper facts\<close>

lemmas stoul_defs =
  stoul_def skip_sign_def skip_0x_def isspace_def isxdigit_def hex_digit_def hex_value_def

lemmas placeholder_defs =
  CanSafeMacSpoof_def ApplyMacSpoofing_def SpoofVolumeSerial_def SpoofDiskSerial_def
  SpoofGpuId_def SpoofWmiData_def

lemma demo_initialized_eq:
  "demo_initialized =
     (initial_globals,
      new_WindowsSpoofer
        \<lparr>m_originalValues := GetOriginalIdentifiers demo_os initial_globals new_WindowsSpoofer,
         m_initialized := True, m_targetProcessId := 1234\<rparr>)"
  by (simp add: demo_initialized_def InitializeForProcess_def new_WindowsSpoofer_def
      SetupProcessMonitoring_def)

lemma demo_applied_eq:
  "demo_applied =
     (\<lparr>g_spooferInstance = True, g_originalGetVolumeInformationA = Some 100,
       g_originalGetAdaptersInfo = Some 200,
       detour_table =
         \<lparr>redirected = {Hook_GetVolumeInformationA, Hook_GetAdaptersInfo},
          transactions = [([DetourAttach Hook_GetVolumeInformationA,
                            DetourAttach Hook_GetAdaptersInfo], 0)]\<rparr>\<rparr>,
      \<lparr>m_currentSpoofed = demo_identifiers\<lparr>processId := 1234, active := True\<rparr>,
       m_originalValues = GetOriginalIdentifiers demo_os initial_globals new_WindowsSpoofer,
       m_initialized = True, m_hooksInstalled = True, m_targetProcessId = 1234\<rparr>)"
  by (simp add: demo_applied_def demo_initialized_eq ApplySpoofing_def InstallHooks_def
      DetourTransactionCommit_def NO_ERROR_def new_WindowsSpoofer_def initial_globals_def
      demo_os_def demo_identifiers_def empty_SpoofedIdentifiers_def placeholder_defs Let_def
      insert_commute)

lemma demo_alive:
  "IsProcessAlive demo_os 1234" "IsProcessAlive demo_os_commit_fails 1234"
  "\<not> IsProcessAlive demo_os_process_gone 1234"
  by (simp_all add: IsProcessAlive_def demo_os_def demo_os_commit_fails_def
      demo_os_process_gone_def STILL_ACTIVE_def)

lemma InstallHooks_object:
  "snd (snd (InstallHooks env pid g this))
     = this\<lparr>m_hooksInstalled := (m_hooksInstalled this \<or> fst (InstallHooks env pid g this))\<rparr>"
  by (simp add: InstallHooks_def Let_def split: option.splits prod.splits)

lemma ApplySpoofing_eq:
  "ApplySpoofing env ids g this =
     (if \<not> m_initialized this then (False, g, this)
      else
        (let r = InstallHooks env (m_targetProcessId this) g
                   (this\<lparr>m_currentSpoofed := ids\<lparr>processId := m_targetProcessId this, active := True\<rparr>\<rparr>)
         in if fst r then (True, fst (snd r), snd (snd r))
            else (False, fst (snd r),
                  (snd (snd r))\<lparr>m_currentSpoofed := (m_currentSpoofed (snd (snd r)))\<lparr>active := False\<rparr>\<rparr>)))"
  by (simp add: ApplySpoofing_def placeholder_defs Let_def split: prod.splits)

lemma ApplySpoofing_success:
  assumes "fst (ApplySpoofing env ids g this)"
  shows "m_initialized this"
    and "snd (snd (ApplySpoofing env ids g this))
           = this\<lparr>m_currentSpoofed := ids\<lparr>processId := m_targetProcessId this, active := True\<rparr>,
                  m_hooksInstalled := True\<rparr>"
proof -
  show i: "m_initialized this"
    using assms by (simp add: ApplySpoofing_eq split: if_splits)
  have ok: "fst (InstallHooks env (m_targetProcessId this) g
      (this\<lparr>m_currentSpoofed := ids\<lparr>processId := m_targetProcessId this, active := True\<rparr>\<rparr>))"
    using assms i by (simp add: ApplySpoofing_eq Let_def split: if_splits)
  show "snd (snd (ApplySpoofing env ids g this))
           = this\<lparr>m_currentSpoofed := ids\<lparr>processId := m_targetProcessId this, active := True\<rparr>,
                  m_hooksInstalled := True\<rparr>"
    using i ok by (simp add: ApplySpoofing_eq Let_def InstallHooks_object)
qed

lemma Hooked_adapters_result:
  "fst (HookedGetAdaptersInfo env g this c) = fst (real_GetAdaptersInfo env c)"
  by (simp add: HookedGetAdaptersInfo_def Let_def split: prod.splits)

lemma Hooked_volume_result:
  "fst (HookedGetVolumeInformationA env g this c) = fst (real_GetVolumeInformationA env c)"
  by (simp add: HookedGetVolumeInformationA_def Let_def split: prod.splits sum.splits)

lemma GetCurrentMacAddress_fallback:
  assumes "\<forall>c. fst (real_GetAdaptersInfo env c) \<noteq> ERROR_SUCCESS"
  shows "GetCurrentMacAddress env g this = ''00:00:00:00:00:00''"
proof (cases "GetAdaptersInfo env g this
      \<lparr>AdapterInfo = replicate 16 blank_adapter,
       SizePointer = Some (16 * sizeof_IP_ADAPTER_INFO env)\<rparr>")
  case (Pair status mem)
  have "fst (GetAdaptersInfo env g this c) \<noteq> ERROR_SUCCESS" for c
    using assms by (simp add: GetAdaptersInfo_def Hooked_adapters_result)
  from this [of "\<lparr>AdapterInfo = replicate 16 blank_adapter,
       SizePointer = Some (16 * sizeof_IP_ADAPTER_INFO env)\<rparr>"] Pair
  have "status \<noteq> ERROR_SUCCESS" by simp
  with Pair show ?thesis
    by (simp add: GetCurrentMacAddress_def Let_def)
qed

lemma GetCurrentVolumeSerial_fallback:
  assumes "\<forall>c. fst (real_GetVolumeInformationA env c) = 0"
  shows "GetCurrentVolumeSerial env g this = ''00000000''"
proof (cases "GetVolumeInformationA env g this
      \<lparr>lpRootPathName = Some [CHR ''C'', CHR '':'', char_of (92 :: nat)],
       lpVolumeNameBuffer = None, nVolumeNameSize = 0,
       lpVolumeSerialNumber = Some 0, lpMaximumComponentLength = None,
       lpFileSystemFlags = None, lpFileSystemNameBuffer = None,
       nFileSystemNameSize = 0\<rparr>")
  case (Pair ok mem)
  have "fst (GetVolumeInformationA env g this c) = 0" for c
    using assms by (simp add: GetVolumeInformationA_def Hooked_volume_result)
  from this [of "\<lparr>lpRootPathName = Some [CHR ''C'', CHR '':'', char_of (92 :: nat)],
       lpVolumeNameBuffer = None, nVolumeNameSize = 0,
       lpVolumeSerialNumber = Some 0, lpMaximumComponentLength = None,
       lpFileSystemFlags = None, lpFileSystemNameBuffer = None,
       nFileSystemNameSize = 0\<rparr>"] Pair
  have "ok = 0" by simp
  with Pair show ?thesis
    by (simp add: GetCurrentVolumeSerial_def Let_def)
qed

lemma RemoveHooks_object:
  "snd (snd (RemoveHooks env g this))
     = this\<lparr>m_hooksInstalled := (m_hooksInstalled this \<and> \<not> fst (RemoveHooks env g this))\<rparr>"
  by (simp add: RemoveHooks_def Let_def split: prod.splits)

lemma RestoreOriginalValues_object:
  "snd (snd (RestoreOriginalValues env g this))
     = (if m_initialized this \<and> active (m_currentSpoofed this)
        then this\<lparr>m_currentSpoofed := (m_currentSpoofed this)\<lparr>active := False\<rparr>,
                  m_hooksInstalled := (m_hooksInstalled this \<and> \<not> fst (RemoveHooks env g this))\<rparr>
        else this)"
proof (cases "RemoveHooks env g this")
  case (fields removed g' this1)
  then have "this1 = this\<lparr>m_hooksInstalled := (m_hooksInstalled this \<and> \<not> removed)\<rparr>"
    using RemoveHooks_object [of env g this] by simp
  with fields show ?thesis
    by (simp add: RestoreOriginalValues_def)
qed

lemma Cleanup_eq:
  "Cleanup env g this =
     (if m_initialized this
      then (fst (snd (RestoreOriginalValues env g this)),
            (snd (snd (RestoreOriginalValues env g this)))\<lparr>m_initialized := False, m_targetProcessId := 0\<rparr>)
      else (g, this))"
  by (simp add: Cleanup_def Let_def split: prod.splits)

lemma owner_matches_preserved:
  assumes "owner_matches this"
  shows "owner_matches (snd (snd (ApplySpoofing env ids g this)))"
    and "owner_matches (snd (snd (RestoreOriginalValues env g this)))"
    and "owner_matches (snd (Cleanup env g this))"
  using assms
  by (simp_all add: owner_matches_def ApplySpoofing_eq InstallHooks_object Let_def
      RestoreOriginalValues_object Cleanup_eq)

lemma RemoveHooks_commits:
  assumes "m_hooksInstalled this" and "DetourTransactionCommit_result env = NO_ERROR"
  shows "fst (RemoveHooks env g this)"
    and "\<not> g_spooferInstance (fst (snd (RemoveHooks env g this)))"
    and "g_originalGetVolumeInformationA g \<noteq> None \<Longrightarrow>
           Hook_GetVolumeInformationA \<notin> redirected (detour_table (fst (snd (RemoveHooks env g this))))"
    and "g_originalGetAdaptersInfo g \<noteq> None \<Longrightarrow>
           Hook_GetAdaptersInfo \<notin> redirected (detour_table (fst (snd (RemoveHooks env g this))))"
  using assms
  by (auto simp: RemoveHooks_def DetourTransactionCommit_def Let_def)

lemma RestoreOriginalValues_globals:
  "m_initialized this \<Longrightarrow> active (m_currentSpoofed this) \<Longrightarrow>
   fst (snd (RestoreOriginalValues env g this)) = fst (snd (RemoveHooks env g this))"
  by (simp add: RestoreOriginalValues_def split: prod.splits)

lemma demo_commit: "DetourTransactionCommit_result demo_os = NO_ERROR"
  "DetourTransactionCommit_result demo_os_commit_fails \<noteq> NO_ERROR"
  by (simp_all add: demo_os_def demo_os_commit_fails_def NO_ERROR_def)

lemma demo_no_iphlpapi:
  "GetModuleHandleA demo_os_no_iphlpapi ''kernel32.dll'' = Some 1"
  "GetProcAddress demo_os_no_iphlpapi 1 ''GetVolumeInformationA'' = Some 100"
  "GetModuleHandleA demo_os_no_iphlpapi ''iphlpapi.dll'' = None"
  "DetourTransactionCommit_result demo_os_no_iphlpapi = NO_ERROR"
  "GetModuleHandleA demo_os_no_iphlpapi_commit_fails ''kernel32.dll'' = Some 1"
  "GetProcAddress demo_os_no_iphlpapi_commit_fails 1 ''GetVolumeInformationA'' = Some 100"
  "GetModuleHandleA demo_os_no_iphlpapi_commit_fails ''iphlpapi.dll'' = None"
  "DetourTransactionCommit_result demo_os_no_iphlpapi_commit_fails \<noteq> NO_ERROR"
  by (simp_all add: demo_os_no_iphlpapi_def demo_os_no_iphlpapi_commit_fails_def demo_os_def
      NO_ERROR_def)

text \<open>
  After an install and a removal with both modules loaded, the adapter entry point is
  still held; a later install with \<^verbatim>\<open>iphlpapi.dll\<close> absent attaches it again.
\<close>

lemma InstallHooks_stale_adapter_pointer:
  "transactions (detour_table (fst (snd (InstallHooks demo_os_no_iphlpapi 1234
      (fst (snd (RemoveHooks demo_os (fst demo_applied) (snd demo_applied))))
      (snd (snd (RemoveHooks demo_os (fst demo_applied) (snd demo_applied))))))))
   = [([DetourAttach Hook_GetVolumeInformationA, DetourAttach Hook_GetAdaptersInfo], 0),
      ([DetourDetach Hook_GetVolumeInformationA, DetourDetach Hook_GetAdaptersInfo], 0),
      ([DetourAttach Hook_GetVolumeInformationA, DetourAttach Hook_GetAdaptersInfo], 0)]"
  by (simp add: InstallHooks_def RemoveHooks_def DetourTransactionCommit_def demo_applied_eq
      demo_os_no_iphlpapi_def demo_os_def NO_ERROR_def Let_def)

lemma to_hex_digit: "n < 16 \<Longrightarrow> to_hex upper n = [digit_char upper n]"
  by (simp add: to_hex.simps)

lemma char_of_48: "CHR ''0'' = char_of (48 :: nat)"
proof -
  have "(of_char (CHR ''0'') :: nat) = 48"
    by simp
  then have "char_of (of_char (CHR ''0'') :: nat) = char_of (48 :: nat)"
    by (simp only:)
  then show ?thesis
    by (simp only: char_of_char)
qed

lemma to_hex_byte:
  assumes "n < 256"
  shows "setw2 (to_hex False n) = [digit_char False (n div 16), digit_char False (n mod 16)]"
proof (cases "n < 16")
  case True
  then show ?thesis
    by (simp add: to_hex_digit setw2_def digit_char_def char_of_48)
next
  case False
  with assms have "n div 16 < 16" by simp
  with False show ?thesis
    by (simp add: to_hex.simps [of False n] to_hex_digit setw2_def)
qed

lemma upper_digit_char: "d < 16 \<Longrightarrow> upper_hex_digit (digit_char True d)"
  by (auto simp: upper_hex_digit_def digit_char_def)

lemma toupper_digit_char: "d < 16 \<Longrightarrow> upper_hex_digit (toupper (digit_char False d))"
  by (auto simp: upper_hex_digit_def digit_char_def toupper_def Let_def)

lemma toupper_colon: "toupper (CHR '':'') = CHR '':''"
  by (simp add: toupper_def)

lemma upt6: "[0..<6] = [0, 1, 2, 3, 4, 5 :: nat]"
  by (simp add: upt_conv_Cons)

lemma unat_byte: "unat (b :: 8 word) < 256"
  using unsigned_less [of b, where ?'a = nat] by simp

lemma unat_nibble: "unat (b :: 4 word) < 16"
  using unsigned_less [of b, where ?'a = nat] by simp

lemma GenerateRandomMac_eq:
  "GenerateRandomMac dis =
     (let hi = (\<lambda>i. toupper (digit_char False (unat (dis i) div 16)));
          lo = (\<lambda>i. toupper (digit_char False (unat (dis i) mod 16)))
      in [hi 0, lo 0, CHR '':'', hi 1, lo 1, CHR '':'', hi 2, lo 2, CHR '':'',
          hi 3, lo 3, CHR '':'', hi 4, lo 4, CHR '':'', hi 5, lo 5])"
  by (simp add: GenerateRandomMac_def upt6 to_hex_byte unat_byte toupper_colon)

lemma GenerateRandomMac_pattern: "mac_pattern (GenerateRandomMac dis)"
proof -
  have d: "unat (dis i) div 16 < 16" "unat (dis i) mod 16 < 16" for i
    using unat_byte [of "dis i"] by simp_all
  have six: "6 = Suc (Suc (Suc (Suc (Suc (Suc 0)))))"
    by simp
  show ?thesis
    unfolding mac_pattern_def GenerateRandomMac_eq Let_def six
    by (simp add: toupper_digit_char d)
qed

lemma GenerateRandomSerial_eq:
  "GenerateRandomSerial dis len = map (\<lambda>i. digit_char True (unat (dis i))) [0..<nat len]"
proof -
  have "concat (map (\<lambda>i. to_hex True (unat (dis i))) xs)
      = map (\<lambda>i. digit_char True (unat (dis i))) xs" for xs
    by (induction xs) (simp_all add: to_hex_digit unat_nibble)
  then show ?thesis
    by (simp add: GenerateRandomSerial_def)
qed

lemma GenerateRandomSerial_format:
  "length (GenerateRandomSerial dis len) = nat len"
  "list_all upper_hex_digit (GenerateRandomSerial dis len)"
  by (simp_all add: GenerateRandomSerial_eq list_all_iff upper_digit_char unat_nibble)

lemma demo_apply_eq:
  "demo_apply ids =
     (\<lparr>g_spooferInstance = True, g_originalGetVolumeInformationA = Some 100,
       g_originalGetAdaptersInfo = Some 200,
       detour_table =
         \<lparr>redirected = {Hook_GetVolumeInformationA, Hook_GetAdaptersInfo},
          transactions = [([DetourAttach Hook_GetVolumeInformationA,
                            DetourAttach Hook_GetAdaptersInfo], 0)]\<rparr>\<rparr>,
      \<lparr>m_currentSpoofed = ids\<lparr>processId := 1234, active := True\<rparr>,
       m_originalValues = GetOriginalIdentifiers demo_os initial_globals new_WindowsSpoofer,
       m_initialized = True, m_hooksInstalled = True, m_targetProcessId = 1234\<rparr>)"
  by (simp add: demo_apply_def demo_initialized_eq ApplySpoofing_eq InstallHooks_def
      DetourTransactionCommit_def NO_ERROR_def new_WindowsSpoofer_def initial_globals_def
      demo_os_def Let_def insert_commute)

lemma isxdigit_not_special:
  assumes "isxdigit c"
  shows "\<not> isspace c" and "c \<noteq> CHR ''-''" and "c \<noteq> CHR ''+''"
    and "c \<noteq> CHR ''x''" and "c \<noteq> CHR ''X''"
  using assms
  by (auto simp: isxdigit_def hex_digit_def isspace_def Let_def split: if_splits)

lemma x_not_isxdigit: "\<not> isxdigit CHR ''x''" "\<not> isxdigit CHR ''X''"
  by (simp_all add: isxdigit_def hex_digit_def)

lemma skip_0x_hex: "list_all isxdigit s \<Longrightarrow> skip_0x s = s"
  by (auto simp: skip_0x_def x_not_isxdigit split: list.splits)

lemma takeWhile_all: "list_all P s \<Longrightarrow> takeWhile P s = s"
  by (induction s) simp_all

lemma hex_digit_bound: "isxdigit c \<Longrightarrow> the (hex_digit c) < 16"
  by (auto simp: isxdigit_def hex_digit_def Let_def split: if_splits)

lemma hex_value_snoc: "hex_value (s @ [c]) = 16 * hex_value s + the (hex_digit c)"
  by (simp add: hex_value_def)

lemma hex_value_bound: "list_all isxdigit s \<Longrightarrow> hex_value s < 16 ^ length s"
proof (induction s rule: rev_induct)
  case Nil
  then show ?case by (simp add: hex_value_def)
next
  case (snoc c s)
  then have "hex_value s < 16 ^ length s" and "the (hex_digit c) < 16"
    by (simp_all add: hex_digit_bound)
  then have "16 * hex_value s + the (hex_digit c) < 16 * 16 ^ length s"
    by linarith
  then show ?case
    by (simp add: hex_value_snoc)
qed

lemma stoul_valid_hex:
  assumes "valid_hex s"
  shows "stoul s = (if 2 ^ 32 \<le> hex_value s then Inl out_of_range
                    else Inr (word_of_nat (hex_value s)))"
proof -
  obtain c r where s: "s = c # r" and c: "isxdigit c" and all: "list_all isxdigit s"
    using assms by (cases s) (auto simp: valid_hex_def)
  have "dropWhile isspace s = s"
    using s c by (simp add: isxdigit_not_special)
  moreover have "skip_sign s = (False, s)"
    using s c by (simp add: skip_sign_def isxdigit_not_special)
  moreover have "takeWhile isxdigit (skip_0x s) = s"
    using all by (simp add: skip_0x_hex takeWhile_all)
  ultimately show ?thesis
    using s by (simp add: stoul_def Let_def)
qed

lemma stoul_short_hex:
  assumes "valid_hex s" and "length s \<le> 8"
  shows "stoul s = Inr (word_of_nat (hex_value s))"
proof -
  have "hex_value s < 16 ^ length s"
    using assms(1) by (simp add: valid_hex_def hex_value_bound)
  also have "(16 :: nat) ^ length s \<le> 16 ^ 8"
    using assms(2) by (intro power_increasing) simp_all
  finally have "hex_value s < 2 ^ 32"
    by simp
  then show ?thesis
    using assms(1) by (simp add: stoul_valid_hex)
qed

lemma stoul_no_digit:
  assumes "\<not> isxdigit c" and "\<not> isspace c" and "c \<noteq> CHR ''-''" and "c \<noteq> CHR ''+''"
  shows "stoul (c # r) = Inl invalid_argument"
proof -
  have "c \<noteq> CHR ''0''"
    using assms(1) by (auto simp: isxdigit_def hex_digit_def)
  then have "skip_0x (c # r) = c # r"
    by (simp add: skip_0x_def split: list.splits)
  then show ?thesis
    using assms by (simp add: stoul_def skip_sign_def Let_def)
qed

lemma demo_real_volume:
  "real_GetVolumeInformationA demo_os demo_volume_call
     = (1, demo_volume_call\<lparr>lpVolumeSerialNumber := Some 0xCAFEBABE\<rparr>)"
  by (simp add: demo_os_def demo_volume_call_def)

lemma demo_apply_active:
  "g_spooferInstance (fst (demo_apply ids))" "IsSpoofingActive demo_os (snd (demo_apply ids))"
  "m_currentSpoofed (snd (demo_apply ids)) = ids\<lparr>processId := 1234, active := True\<rparr>"
  using demo_alive(1) by (simp_all add: demo_apply_eq IsSpoofingActive_def)

lemma valid_hex_examples:
  "valid_hex ''DEADBEEF''" "valid_hex ''123456789''" "\<not> valid_hex ''12ZZ''"
  "\<not> valid_hex ''ZZZZ''" "hex_value ''DEADBEEF'' = 0xDEADBEEF"
  "2 ^ 32 \<le> hex_value ''123456789''"
  by (simp_all add: valid_hex_def isxdigit_def hex_digit_def hex_value_def)

lemma Z_no_digit:
  "\<not> isxdigit CHR ''Z''" "\<not> isspace CHR ''Z''" "CHR ''Z'' \<noteq> CHR ''-''" "CHR ''Z'' \<noteq> CHR ''+''"
  by (simp_all add: isxdigit_def hex_digit_def isspace_def)

lemma spoof_bytes_length: "length (spoof_bytes mac len i addr) = length addr"
proof (induction mac len i addr rule: spoof_bytes.induct)
  case (1 mac len i addr)
  then show ?case
    by (subst spoof_bytes.simps) (simp split: sum.splits)
qed

lemma spoof_bytes_nth:
  "k < length addr \<Longrightarrow>
   spoof_bytes mac len i addr ! k
     = (if i \<le> k \<and> k < 6 \<and> k < unat len
           \<and> (\<forall>j. i \<le> j \<and> j \<le> k \<longrightarrow> \<not> isl (stoul (substr mac (j * 2) 2)))
        then ucast (projr (stoul (substr mac (k * 2) 2)))
        else addr ! k)"
proof (induction mac len i addr rule: spoof_bytes.induct)
  case (1 mac len i addr)
  show ?case
  proof (cases "i < 6 \<and> i < unat len")
    case False
    then show ?thesis
      by (subst spoof_bytes.simps) auto
  next
    case True
    show ?thesis
    proof (cases "stoul (substr mac (i * 2) 2)")
      case (Inl e)
      with True show ?thesis
        by (subst spoof_bytes.simps) auto
    next
      case (Inr v)
      have step: "spoof_bytes mac len i addr = spoof_bytes mac len (i + 1) (addr[i := ucast v])"
        using True Inr by (subst spoof_bytes.simps) simp
      have ih: "spoof_bytes mac len (i + 1) (addr[i := ucast v]) ! k
        = (if i + 1 \<le> k \<and> k < 6 \<and> k < unat len
              \<and> (\<forall>j. i + 1 \<le> j \<and> j \<le> k \<longrightarrow> \<not> isl (stoul (substr mac (j * 2) 2)))
           then ucast (projr (stoul (substr mac (k * 2) 2)))
           else addr[i := ucast v] ! k)"
        using "1.IH" [OF True Inr] "1.prems" by simp
      have range: "(\<forall>j. i \<le> j \<and> j \<le> k \<longrightarrow> \<not> isl (stoul (substr mac (j * 2) 2)))
          \<longleftrightarrow> (\<forall>j. i + 1 \<le> j \<and> j \<le> k \<longrightarrow> \<not> isl (stoul (substr mac (j * 2) 2)))"
        if "i \<le> k"
      proof -
        have "i \<le> j \<longleftrightarrow> j = i \<or> i + 1 \<le> j" for j
          by auto
        then show ?thesis
          using Inr by auto
      qed
      consider "k < i" | "k = i" | "i < k"
        by arith
      then show ?thesis
      proof cases
        case 1
        then show ?thesis
          unfolding step ih by simp
      next
        case 2
        have "\<not> isl (stoul (substr mac (j * 2) 2))" if "i \<le> j \<and> j \<le> k" for j
        proof -
          from that 2 have "j = i" by simp
          with Inr show ?thesis by simp
        qed
        with 2 True
        have cond: "i \<le> k \<and> k < 6 \<and> k < unat len
            \<and> (\<forall>j. i \<le> j \<and> j \<le> k \<longrightarrow> \<not> isl (stoul (substr mac (j * 2) 2)))"
          by blast
        have "spoof_bytes mac len i addr ! k = ucast v"
          unfolding step ih using 2 "1.prems" by simp
        also have "\<dots> = ucast (projr (stoul (substr mac (k * 2) 2)))"
          using 2 Inr by simp
        finally show ?thesis
          by (simp only: if_P [OF cond])
      next
        case 3
        then have "i \<le> k" "i + 1 \<le> k" "i \<noteq> k"
          by simp_all
        then have ceq: "(i + 1 \<le> k \<and> k < 6 \<and> k < unat len
              \<and> (\<forall>j. i + 1 \<le> j \<and> j \<le> k \<longrightarrow> \<not> isl (stoul (substr mac (j * 2) 2))))
            = (i \<le> k \<and> k < 6 \<and> k < unat len
              \<and> (\<forall>j. i \<le> j \<and> j \<le> k \<longrightarrow> \<not> isl (stoul (substr mac (j * 2) 2))))"
          using range by blast
        have upd: "addr[i := ucast v] ! k = addr ! k"
          using \<open>i \<noteq> k\<close> by simp
        show ?thesis
          unfolding step ih ceq upd by (rule refl)
      qed
    qed
  qed
qed

lemma spoof_adapters_map:
  "spoof_adapters mac xs
     = map (\<lambda>a. if 12 \<le> length mac
                 then a\<lparr>Address := spoof_bytes mac (AddressLength a) 0 (Address a)\<rparr> else a) xs"
  by (induction xs) simp_all

lemma spoof_adapters_short: "length mac < 12 \<Longrightarrow> spoof_adapters mac xs = xs"
  by (simp add: spoof_adapters_map)

lemma HookedGetAdaptersInfo_eq:
  "HookedGetAdaptersInfo env g this call =
     (fst (real_GetAdaptersInfo env call),
      if g_spooferInstance g \<and> IsSpoofingActive env this
         \<and> fst (real_GetAdaptersInfo env call) = NO_ERROR \<and> AdapterInfo call \<noteq> []
         \<and> 12 \<le> length (macAddress (m_currentSpoofed this))
      then (snd (real_GetAdaptersInfo env call))
             \<lparr>AdapterInfo := spoof_adapters (macAddress (m_currentSpoofed this))
                               (AdapterInfo (snd (real_GetAdaptersInfo env call)))\<rparr>
      else snd (real_GetAdaptersInfo env call))"
proof (cases "real_GetAdaptersInfo env call")
  case (Pair result mem)
  have s: "mem\<lparr>AdapterInfo := spoof_adapters mac (AdapterInfo mem)\<rparr> = mem"
    if "length mac < 12" for mac
    using that by (simp add: spoof_adapters_short)
  show ?thesis
    using Pair
    by (cases "12 \<le> length (macAddress (m_currentSpoofed this))")
      (auto simp: HookedGetAdaptersInfo_def GetCurrentSpoofedValues_def Let_def s)
qed

lemma stoul_two_hex:
  assumes "isxdigit a" and "isxdigit b"
  shows "stoul [a, b] = Inr (word_of_nat (16 * the (hex_digit a) + the (hex_digit b)))"
proof -
  have "valid_hex [a, b]"
    using assms by (simp add: valid_hex_def)
  then have "stoul [a, b] = Inr (word_of_nat (hex_value [a, b]))"
    by (rule stoul_short_hex) simp
  then show ?thesis
    by (simp add: hex_value_def)
qed

lemma stoul_AABBCCDDEEFF:
  assumes "j < 6"
  shows "stoul (substr ''AABBCCDDEEFF'' (j * 2) 2)
           = Inr ([0xAA, 0xBB, 0xCC, 0xDD, 0xEE, 0xFF] ! j)"
proof -
  have "j \<in> {0, 1, 2, 3, 4, 5}"
    using assms by auto
  then show ?thesis
    by (elim insertE emptyE) (simp_all add: substr_def stoul_defs Let_def)
qed

lemma demo_real_adapters:
  "real_GetAdaptersInfo demo_os call = (0, call\<lparr>AdapterInfo := two_adapters\<rparr>)"
  by (simp add: demo_os_def)

lemma mac_only_mac: "macAddress (mac_only s) = s"
  by (simp add: mac_only_def)

lemma demo_gone_inactive: "\<not> IsSpoofingActive demo_os_process_gone (snd (demo_apply ids))"
  using demo_alive(3) by (simp add: IsSpoofingActive_def demo_apply_eq)

lemma demo_real_adapters_gone:
  "real_GetAdaptersInfo demo_os_process_gone call = (0, call\<lparr>AdapterInfo := two_adapters\<rparr>)"
  by (simp add: demo_os_process_gone_def demo_os_def)

lemma two_adapters_facts:
  "length two_adapters = 2"
  "AddressLength (two_adapters ! 0) = 6" "AddressLength (two_adapters ! 1) = 4"
  "Address (two_adapters ! 0) = [0x00, 0x11, 0x22, 0x33, 0x44, 0x55, 0, 0]"
  "Address (two_adapters ! 1) = [0x0A, 0x0B, 0x0C, 0x0D, 0, 0, 0, 0]"
  "AddressLength (two_adapters ! Suc 0) = 4"
  "Address (two_adapters ! Suc 0) = [0x0A, 0x0B, 0x0C, 0x0D, 0, 0, 0, 0]"
  by (simp_all add: two_adapters_def)

lemma demo_volume_call_serial: "lpVolumeSerialNumber demo_volume_call = Some 0"
  by (simp add: demo_volume_call_def)

lemma demo_adapters_call_buffer: "AdapterInfo demo_adapters_call \<noteq> []"
  by (simp add: demo_adapters_call_def)

section \<open>Restore drops the result of hook removal\<close>

text \<open>
  C10. When \<open>RestoreOriginalValues\<close> runs on an initialized controller with an active spoof
  and installed hooks, and the detach transaction does not commit, the call still returns
  true and clears the active flag, while the hooks stay marked installed, the redirections
  stay in the process table and the handlers keep their instance pointer; the status query
  then reads inactive, whatever the process table says.
\<close>

theorem RestoreOriginalValues_ignores_failed_removal:
  assumes "m_initialized this" and "active (m_currentSpoofed this)"
    and "m_hooksInstalled this" and "DetourTransactionCommit_result env \<noteq> NO_ERROR"
  shows "fst (RestoreOriginalValues env g this) = True
    \<and> \<not> active (m_currentSpoofed (snd (snd (RestoreOriginalValues env g this))))
    \<and> m_hooksInstalled (snd (snd (RestoreOriginalValues env g this)))
    \<and> redirected (detour_table (fst (snd (RestoreOriginalValues env g this))))
        = redirected (detour_table g)
    \<and> g_spooferInstance (fst (snd (RestoreOriginalValues env g this))) = g_spooferInstance g
    \<and> \<not> IsSpoofingActive env' (snd (snd (RestoreOriginalValues env g this)))"
  using assms
  by (simp add: RestoreOriginalValues_def RemoveHooks_def DetourTransactionCommit_def Let_def
      IsSpoofingActive_def)

theorem RestoreOriginalValues_ignores_failed_removal_witness:
  "m_initialized (snd demo_applied) \<and> active (m_currentSpoofed (snd demo_applied))
   \<and> m_hooksInstalled (snd demo_applied)
   \<and> DetourTransactionCommit_result demo_os_commit_fails \<noteq> NO_ERROR
   \<and> fst (RestoreOriginalValues demo_os_commit_fails (fst demo_applied) (snd demo_applied)) = True
   \<and> m_hooksInstalled
       (snd (snd (RestoreOriginalValues demo_os_commit_fails (fst demo_applied) (snd demo_applied))))
   \<and> redirected (detour_table (fst (snd
         (RestoreOriginalValues demo_os_commit_fails (fst demo_applied) (snd demo_applied)))))
       = {Hook_GetVolumeInformationA, Hook_GetAdaptersInfo}
   \<and> \<not> IsSpoofingActive demo_os_commit_fails
         (snd (snd (RestoreOriginalValues demo_os_commit_fails (fst demo_applied) (snd demo_applied))))"
proof -
  have h: "m_initialized (snd demo_applied)" "active (m_currentSpoofed (snd demo_applied))"
    "m_hooksInstalled (snd demo_applied)"
    "DetourTransactionCommit_result demo_os_commit_fails \<noteq> NO_ERROR"
    by (simp_all add: demo_applied_eq demo_os_commit_fails_def NO_ERROR_def)
  have r: "redirected (detour_table (fst demo_applied))
      = {Hook_GetVolumeInformationA, Hook_GetAdaptersInfo}"
    by (simp add: demo_applied_eq)
  show ?thesis
    using h r RestoreOriginalValues_ignores_failed_removal
      [OF h, of "fst demo_applied" demo_os_commit_fails]
    by simp
qed

section \<open>Status is derived at read time\<close>

text \<open>
  C3. \<open>IsSpoofingActive\<close> is true exactly when the controller is initialized, the current
  spoof set is flagged active and the liveness query finds the target process alive at the
  moment of the call. Hence, for the object left by a successful apply: while the query
  finds the target process alive the status is true, and once it no longer does the status
  is false, on the very same object state (no restore, no other change).
\<close>

theorem IsSpoofingActive_read_time:
  "(IsSpoofingActive env this \<longleftrightarrow>
      m_initialized this \<and> active (m_currentSpoofed this)
      \<and> IsProcessAlive env (m_targetProcessId this))
   \<and> (fst (ApplySpoofing env0 ids g this0) \<longrightarrow>
        IsProcessAlive env1 (m_targetProcessId this0) \<longrightarrow>
        \<not> IsProcessAlive env2 (m_targetProcessId this0) \<longrightarrow>
        IsSpoofingActive env1 (snd (snd (ApplySpoofing env0 ids g this0)))
        \<and> \<not> IsSpoofingActive env2 (snd (snd (ApplySpoofing env0 ids g this0))))"
proof -
  have "IsSpoofingActive env1 (snd (snd (ApplySpoofing env0 ids g this0)))
        \<and> \<not> IsSpoofingActive env2 (snd (snd (ApplySpoofing env0 ids g this0)))"
    if "fst (ApplySpoofing env0 ids g this0)"
      and "IsProcessAlive env1 (m_targetProcessId this0)"
      and "\<not> IsProcessAlive env2 (m_targetProcessId this0)"
    using that ApplySpoofing_success [OF that(1)] by (simp add: IsSpoofingActive_def)
  then show ?thesis
    by (simp add: IsSpoofingActive_def)
qed

theorem IsSpoofingActive_read_time_witness:
  "fst (ApplySpoofing demo_os demo_identifiers (fst demo_initialized) (snd demo_initialized))
   \<and> IsProcessAlive demo_os (m_targetProcessId (snd demo_initialized))
   \<and> \<not> IsProcessAlive demo_os_process_gone (m_targetProcessId (snd demo_initialized))
   \<and> IsSpoofingActive demo_os (snd demo_applied)
   \<and> \<not> IsSpoofingActive demo_os_process_gone (snd demo_applied)"
proof -
  have a: "fst (ApplySpoofing demo_os demo_identifiers (fst demo_initialized) (snd demo_initialized))"
    by (simp add: demo_initialized_eq ApplySpoofing_def InstallHooks_def
      DetourTransactionCommit_def NO_ERROR_def new_WindowsSpoofer_def initial_globals_def
      demo_os_def demo_identifiers_def empty_SpoofedIdentifiers_def placeholder_defs Let_def)
  have p: "m_targetProcessId (snd demo_initialized) = 1234"
    by (simp add: demo_initialized_eq)
  have l: "IsProcessAlive demo_os (m_targetProcessId (snd demo_initialized))"
    "\<not> IsProcessAlive demo_os_process_gone (m_targetProcessId (snd demo_initialized))"
    using demo_alive by (simp_all add: p)
  have "IsSpoofingActive demo_os (snd demo_applied)
      \<and> \<not> IsSpoofingActive demo_os_process_gone (snd demo_applied)"
    unfolding demo_applied_def
    by (rule IsSpoofingActive_read_time [THEN conjunct2, rule_format, OF a l])
  with a l show ?thesis by simp
qed

section \<open>Initialize never fails\<close>

text \<open>
  C9. \<open>InitializeForProcess\<close> returns true for every process id, every environment and
  every prior state, leaving the controller initialized for that id; the process table is
  not consulted for the result (it holds in particular when the process does not exist).
  When the identifiers are captured and the adapter query fails, the original hardware
  address is the fixed string \<open>00:00:00:00:00:00\<close>; when the volume query fails, the
  original volume serial is the fixed string \<open>00000000\<close>.
\<close>

theorem InitializeForProcess_always_true:
  "fst (InitializeForProcess env pid g this) = True
   \<and> fst (snd (InitializeForProcess env pid g this)) = g
   \<and> m_initialized (snd (snd (InitializeForProcess env pid g this)))
   \<and> m_targetProcessId (snd (snd (InitializeForProcess env pid g this))) = pid
   \<and> (\<not> (m_initialized this \<and> m_targetProcessId this = pid) \<longrightarrow>
        ((\<forall>c. fst (real_GetAdaptersInfo env c) \<noteq> ERROR_SUCCESS) \<longrightarrow>
           orig_macAddress (m_originalValues (snd (snd (InitializeForProcess env pid g this))))
             = ''00:00:00:00:00:00'')
        \<and> ((\<forall>c. fst (real_GetVolumeInformationA env c) = 0) \<longrightarrow>
           orig_volumeSerial (m_originalValues (snd (snd (InitializeForProcess env pid g this))))
             = ''00000000''))"
  by (simp add: InitializeForProcess_def SetupProcessMonitoring_def GetOriginalIdentifiers_def
      GetCurrentMacAddress_fallback GetCurrentVolumeSerial_fallback Let_def)

theorem InitializeForProcess_always_true_witness:
  "\<not> IsProcessAlive demo_os_queries_fail 4321
   \<and> \<not> (m_initialized new_WindowsSpoofer \<and> m_targetProcessId new_WindowsSpoofer = 4321)
   \<and> (\<forall>c. fst (real_GetAdaptersInfo demo_os_queries_fail c) \<noteq> ERROR_SUCCESS)
   \<and> (\<forall>c. fst (real_GetVolumeInformationA demo_os_queries_fail c) = 0)
   \<and> fst (InitializeForProcess demo_os_queries_fail 4321 initial_globals new_WindowsSpoofer) = True
   \<and> orig_macAddress (m_originalValues (snd (snd
        (InitializeForProcess demo_os_queries_fail 4321 initial_globals new_WindowsSpoofer))))
       = ''00:00:00:00:00:00''
   \<and> orig_volumeSerial (m_originalValues (snd (snd
        (InitializeForProcess demo_os_queries_fail 4321 initial_globals new_WindowsSpoofer))))
       = ''00000000''"
proof -
  have h: "\<not> IsProcessAlive demo_os_queries_fail 4321"
    "\<not> (m_initialized new_WindowsSpoofer \<and> m_targetProcessId new_WindowsSpoofer = 4321)"
    "\<forall>c. fst (real_GetAdaptersInfo demo_os_queries_fail c) \<noteq> ERROR_SUCCESS"
    "\<forall>c. fst (real_GetVolumeInformationA demo_os_queries_fail c) = 0"
    by (simp_all add: demo_os_queries_fail_def demo_os_def new_WindowsSpoofer_def
        ERROR_SUCCESS_def IsProcessAlive_def)
  show ?thesis
    using h InitializeForProcess_always_true [of demo_os_queries_fail 4321 initial_globals new_WindowsSpoofer]
    by simp
qed

section \<open>Apply and restore before initialize\<close>

text \<open>
  C4, as the code has it. On a controller that is not initialized, \<open>ApplySpoofing\<close>
  returns false and changes neither the object nor the file-level state, and
  \<open>RestoreOriginalValues\<close> returns true (nothing to restore), also without any change;
  through the host operations, with an existing but uninitialized controller,
  \<open>applySpoofing\<close> of an object yields false and \<open>restoreOriginalIdentifiers\<close> yields true.
  While the module holds no controller at all, both host operations throw the error
  \<open>Spoofer not initialized\<close> and leave the module state as it was.
\<close>

theorem uninitialized_apply_and_restore:
  "(\<not> m_initialized this \<longrightarrow>
       ApplySpoofing env ids g this = (False, g, this)
     \<and> RestoreOriginalValues env g this = (True, g, this)
     \<and> NAN_ApplySpoofing env (JSObject obj # rest) (g, Some this)
         = (Inr (JSBoolean False), (g, Some this))
     \<and> NAN_RestoreOriginalIdentifiers env (g, Some this)
         = (Inr (JSBoolean True), (g, Some this)))
   \<and> NAN_ApplySpoofing env info (g, None) = (Inl (JSError ''Spoofer not initialized''), (g, None))
   \<and> NAN_RestoreOriginalIdentifiers env (g, None)
       = (Inl (JSError ''Spoofer not initialized''), (g, None))"
  by (simp add: ApplySpoofing_def RestoreOriginalValues_def NAN_ApplySpoofing_def
      NAN_RestoreOriginalIdentifiers_def)

theorem uninitialized_apply_and_restore_witness:
  "\<not> m_initialized new_WindowsSpoofer
   \<and> ApplySpoofing demo_os demo_identifiers initial_globals new_WindowsSpoofer
       = (False, initial_globals, new_WindowsSpoofer)
   \<and> RestoreOriginalValues demo_os initial_globals new_WindowsSpoofer
       = (True, initial_globals, new_WindowsSpoofer)"
proof -
  have h: "\<not> m_initialized new_WindowsSpoofer"
    by (simp add: new_WindowsSpoofer_def)
  show ?thesis
    using h uninitialized_apply_and_restore [of new_WindowsSpoofer demo_os demo_identifiers initial_globals]
    by simp
qed

text \<open>
  The claim as stated fails: on a fresh controller the restore operation reports success,
  not failure, and with no controller in the module both host operations end in a thrown
  error rather than a boolean.
\<close>

theorem restore_before_initialize_counterexample:
  "fst (RestoreOriginalValues demo_os initial_globals new_WindowsSpoofer) \<noteq> False
   \<and> fst (NAN_ApplySpoofing demo_os [JSObject [(''volumeSerial'', ''DEADBEEF'')]]
            (initial_globals, None)) = Inl (JSError ''Spoofer not initialized'')
   \<and> fst (NAN_RestoreOriginalIdentifiers demo_os (initial_globals, None))
       = Inl (JSError ''Spoofer not initialized'')"
  by (simp add: RestoreOriginalValues_def new_WindowsSpoofer_def NAN_ApplySpoofing_def
      NAN_RestoreOriginalIdentifiers_def)

section \<open>Cleanup\<close>

text \<open>
  C5, as the code has it. \<open>Cleanup\<close> always leaves the controller uninitialized. When the
  controller was initialized it is the restore step followed by clearing the initialized
  flag and the target process id, so the active flag ends up false. The original
  identifier set and every field of the spoof set other than the active flag stay in the
  object. The interceptions are removed (hooks unmarked, instance pointer cleared, both
  resolved redirections out of the table) when a spoof was active with hooks installed and
  the detach transaction commits. The host operation \<open>cleanup\<close> returns true and leaves no
  controller in the module, which is what discards both identifier sets.
\<close>

theorem Cleanup_restores_then_resets:
  "\<not> m_initialized (snd (Cleanup env g this))
   \<and> (m_initialized this \<longrightarrow>
        Cleanup env g this
          = (fst (snd (RestoreOriginalValues env g this)),
             (snd (snd (RestoreOriginalValues env g this)))
               \<lparr>m_initialized := False, m_targetProcessId := 0\<rparr>)
        \<and> \<not> active (m_currentSpoofed (snd (Cleanup env g this)))
        \<and> m_targetProcessId (snd (Cleanup env g this)) = 0)
   \<and> m_originalValues (snd (Cleanup env g this)) = m_originalValues this
   \<and> (m_currentSpoofed (snd (Cleanup env g this)))\<lparr>active := a\<rparr>
       = (m_currentSpoofed this)\<lparr>active := a\<rparr>
   \<and> (m_initialized this \<and> active (m_currentSpoofed this) \<and> m_hooksInstalled this
        \<and> DetourTransactionCommit_result env = NO_ERROR \<longrightarrow>
          \<not> m_hooksInstalled (snd (Cleanup env g this))
        \<and> \<not> g_spooferInstance (fst (Cleanup env g this))
        \<and> (g_originalGetVolumeInformationA g \<noteq> None \<longrightarrow>
             Hook_GetVolumeInformationA \<notin> redirected (detour_table (fst (Cleanup env g this))))
        \<and> (g_originalGetAdaptersInfo g \<noteq> None \<longrightarrow>
             Hook_GetAdaptersInfo \<notin> redirected (detour_table (fst (Cleanup env g this)))))
   \<and> NAN_Cleanup env (g, sp)
       = (Inr (JSBoolean True),
          (case sp of Some obj \<Rightarrow> fst (Cleanup env g obj) | None \<Rightarrow> g), None)"
proof -
  have 1: "\<not> m_initialized (snd (Cleanup env g' t))" for g' t
    by (simp add: Cleanup_eq)
  have 2: "Cleanup env g this
          = (fst (snd (RestoreOriginalValues env g this)),
             (snd (snd (RestoreOriginalValues env g this)))
               \<lparr>m_initialized := False, m_targetProcessId := 0\<rparr>)
        \<and> \<not> active (m_currentSpoofed (snd (Cleanup env g this)))
        \<and> m_targetProcessId (snd (Cleanup env g this)) = 0" if "m_initialized this"
    using that by (simp add: Cleanup_eq RestoreOriginalValues_object)
  have 3: "m_originalValues (snd (Cleanup env g this)) = m_originalValues this"
    by (simp add: Cleanup_eq RestoreOriginalValues_object)
  have 4: "(m_currentSpoofed (snd (Cleanup env g this)))\<lparr>active := a\<rparr>
       = (m_currentSpoofed this)\<lparr>active := a\<rparr>"
    by (simp add: Cleanup_eq RestoreOriginalValues_object)
  have 5: "\<not> m_hooksInstalled (snd (Cleanup env g this))
        \<and> \<not> g_spooferInstance (fst (Cleanup env g this))
        \<and> (g_originalGetVolumeInformationA g \<noteq> None \<longrightarrow>
             Hook_GetVolumeInformationA \<notin> redirected (detour_table (fst (Cleanup env g this))))
        \<and> (g_originalGetAdaptersInfo g \<noteq> None \<longrightarrow>
             Hook_GetAdaptersInfo \<notin> redirected (detour_table (fst (Cleanup env g this))))"
    if "m_initialized this" "active (m_currentSpoofed this)" "m_hooksInstalled this"
      "DetourTransactionCommit_result env = NO_ERROR"
    using that RemoveHooks_commits [OF that(3,4), of g]
    by (simp add: Cleanup_eq RestoreOriginalValues_object RestoreOriginalValues_globals)
  have 6: "NAN_Cleanup env (g, sp)
       = (Inr (JSBoolean True),
          (case sp of Some obj \<Rightarrow> fst (Cleanup env g obj) | None \<Rightarrow> g), None)"
  proof (cases sp)
    case None
    then show ?thesis by (simp add: NAN_Cleanup_def)
  next
    case (Some obj)
    obtain g1 this1 where c: "Cleanup env g obj = (g1, this1)"
      by (cases "Cleanup env g obj")
    have "\<not> m_initialized this1"
      using 1 [of g obj] c by simp
    then have "Cleanup env g1 this1 = (g1, this1)"
      by (simp add: Cleanup_eq)
    with Some c show ?thesis
      by (simp add: NAN_Cleanup_def)
  qed
  from 1 2 3 4 5 6 show ?thesis
    by blast
qed

theorem Cleanup_restores_then_resets_witness:
  "m_initialized (snd demo_applied) \<and> active (m_currentSpoofed (snd demo_applied))
   \<and> m_hooksInstalled (snd demo_applied)
   \<and> DetourTransactionCommit_result demo_os = NO_ERROR
   \<and> g_originalGetVolumeInformationA (fst demo_applied) \<noteq> None
   \<and> g_originalGetAdaptersInfo (fst demo_applied) \<noteq> None
   \<and> \<not> m_initialized (snd (Cleanup demo_os (fst demo_applied) (snd demo_applied)))
   \<and> \<not> active (m_currentSpoofed (snd (Cleanup demo_os (fst demo_applied) (snd demo_applied))))
   \<and> \<not> m_hooksInstalled (snd (Cleanup demo_os (fst demo_applied) (snd demo_applied)))
   \<and> Hook_GetVolumeInformationA
        \<notin> redirected (detour_table (fst (Cleanup demo_os (fst demo_applied) (snd demo_applied))))
   \<and> Hook_GetAdaptersInfo
        \<notin> redirected (detour_table (fst (Cleanup demo_os (fst demo_applied) (snd demo_applied))))
   \<and> snd (snd (NAN_Cleanup demo_os (fst demo_applied, Some (snd demo_applied)))) = None"
proof -
  have h: "m_initialized (snd demo_applied)" "active (m_currentSpoofed (snd demo_applied))"
    "m_hooksInstalled (snd demo_applied)" "DetourTransactionCommit_result demo_os = NO_ERROR"
    "g_originalGetVolumeInformationA (fst demo_applied) \<noteq> None"
    "g_originalGetAdaptersInfo (fst demo_applied) \<noteq> None"
    by (simp_all add: demo_applied_eq demo_commit)
  note t = Cleanup_restores_then_resets [of demo_os "fst demo_applied" "snd demo_applied" False "Some (snd demo_applied)"]
  have n: "snd (snd (NAN_Cleanup demo_os (fst demo_applied, Some (snd demo_applied)))) = None"
    using t [THEN conjunct2, THEN conjunct2, THEN conjunct2, THEN conjunct2, THEN conjunct2]
    by simp
  from h t n show ?thesis
    by blast
qed

text \<open>
  The claim as stated fails: after an apply on process 1234, the controller's \<open>Cleanup\<close>
  keeps the spoofed and original identifier strings, and when the detach transaction does
  not commit the two redirections stay in place and the hooks stay marked installed, also
  through the host operation, which then leaves the handlers' instance pointer set although
  the controller is gone.
\<close>

theorem Cleanup_keeps_identifiers_counterexample:
  "volumeSerial (m_currentSpoofed (snd (Cleanup demo_os (fst demo_applied) (snd demo_applied))))
     = ''DEADBEEF''
   \<and> macAddress (m_currentSpoofed (snd (Cleanup demo_os (fst demo_applied) (snd demo_applied))))
     = ''AABBCCDDEEFF''
   \<and> orig_gpuId (m_originalValues (snd (Cleanup demo_os (fst demo_applied) (snd demo_applied))))
     = ''ORIGINAL_GPU''
   \<and> m_hooksInstalled (snd (Cleanup demo_os_commit_fails (fst demo_applied) (snd demo_applied)))
   \<and> redirected (detour_table
        (fst (Cleanup demo_os_commit_fails (fst demo_applied) (snd demo_applied))))
     = {Hook_GetVolumeInformationA, Hook_GetAdaptersInfo}
   \<and> NAN_Cleanup demo_os_commit_fails (fst demo_applied, Some (snd demo_applied))
     = (Inr (JSBoolean True),
        fst (Cleanup demo_os_commit_fails (fst demo_applied) (snd demo_applied)), None)
   \<and> g_spooferInstance
        (fst (Cleanup demo_os_commit_fails (fst demo_applied) (snd demo_applied)))"
  by (simp add: NAN_Cleanup_def Cleanup_eq RestoreOriginalValues_def RemoveHooks_def
      DetourTransactionCommit_def demo_applied_eq demo_commit demo_identifiers_def
      empty_SpoofedIdentifiers_def GetOriginalIdentifiers_def Let_def)

section \<open>Owner of the live spoof set\<close>

text \<open>
  C7. The invariant holds after the apply on process 1234, and a following
  \<open>InitializeForProcess\<close> for process 4321 succeeds and breaks it: the spoof set stays
  active and stamped with 1234 while the target process id becomes 4321.
\<close>

theorem reinitialize_while_active_breaks_owner:
  "active (m_currentSpoofed (snd demo_applied))
   \<and> processId (m_currentSpoofed (snd demo_applied)) = m_targetProcessId (snd demo_applied)
   \<and> fst (InitializeForProcess demo_os 4321 (fst demo_applied) (snd demo_applied)) = True
   \<and> active (m_currentSpoofed (snd (snd
        (InitializeForProcess demo_os 4321 (fst demo_applied) (snd demo_applied)))))
   \<and> processId (m_currentSpoofed (snd (snd
        (InitializeForProcess demo_os 4321 (fst demo_applied) (snd demo_applied))))) = 1234
   \<and> m_targetProcessId (snd (snd
        (InitializeForProcess demo_os 4321 (fst demo_applied) (snd demo_applied)))) = 4321"
  by (simp add: InitializeForProcess_def SetupProcessMonitoring_def demo_applied_eq Let_def)

section \<open>Installing the redirections\<close>

text \<open>
  C6, as the code has it. With hooks already marked installed, \<open>InstallHooks\<close> returns
  true at once and resolves nothing. Otherwise: when \<^verbatim>\<open>kernel32.dll\<close> is not found or
  \<^verbatim>\<open>GetVolumeInformationA\<close> is not found in it, the call returns false, leaves the hooks
  unmarked and starts no transaction. When the volume entry point is resolved, the call
  succeeds, and marks the hooks installed, exactly when the transaction commits. In that
  case, if \<^verbatim>\<open>iphlpapi.dll\<close> is absent and no adapter entry point is held from before, one
  transaction is run that attaches the volume redirection only; if \<^verbatim>\<open>GetAdaptersInfo\<close>
  is resolved from \<^verbatim>\<open>iphlpapi.dll\<close>, one transaction attaches both.
\<close>

theorem InstallHooks_resolution:
  "(m_hooksInstalled this \<longrightarrow> InstallHooks env pid g this = (True, g, this))
   \<and> (\<not> m_hooksInstalled this \<longrightarrow>
        (GetModuleHandleA env ''kernel32.dll'' = None
         \<or> (\<exists>k. GetModuleHandleA env ''kernel32.dll'' = Some k
                \<and> GetProcAddress env k ''GetVolumeInformationA'' = None) \<longrightarrow>
           fst (InstallHooks env pid g this) = False
           \<and> snd (snd (InstallHooks env pid g this)) = this
           \<and> detour_table (fst (snd (InstallHooks env pid g this))) = detour_table g)
      \<and> (GetModuleHandleA env ''kernel32.dll'' = Some k
           \<and> GetProcAddress env k ''GetVolumeInformationA'' = Some v \<longrightarrow>
           (fst (InstallHooks env pid g this) \<longleftrightarrow> DetourTransactionCommit_result env = NO_ERROR)
           \<and> (m_hooksInstalled (snd (snd (InstallHooks env pid g this)))
                \<longleftrightarrow> DetourTransactionCommit_result env = NO_ERROR)
           \<and> (GetModuleHandleA env ''iphlpapi.dll'' = None \<and> g_originalGetAdaptersInfo g = None \<longrightarrow>
                 detour_table (fst (snd (InstallHooks env pid g this)))
                   = \<lparr>redirected =
                        (if DetourTransactionCommit_result env = NO_ERROR
                         then insert Hook_GetVolumeInformationA (redirected (detour_table g))
                         else redirected (detour_table g)),
                      transactions = transactions (detour_table g)
                        @ [([DetourAttach Hook_GetVolumeInformationA],
                            DetourTransactionCommit_result env)]\<rparr>)
           \<and> (GetModuleHandleA env ''iphlpapi.dll'' = Some i
                \<and> GetProcAddress env i ''GetAdaptersInfo'' = Some a \<longrightarrow>
                 detour_table (fst (snd (InstallHooks env pid g this)))
                   = \<lparr>redirected =
                        (if DetourTransactionCommit_result env = NO_ERROR
                         then insert Hook_GetAdaptersInfo
                                (insert Hook_GetVolumeInformationA (redirected (detour_table g)))
                         else redirected (detour_table g)),
                      transactions = transactions (detour_table g)
                        @ [([DetourAttach Hook_GetVolumeInformationA,
                             DetourAttach Hook_GetAdaptersInfo],
                            DetourTransactionCommit_result env)]\<rparr>)))"
proof -
  have 1: "InstallHooks env pid g this = (True, g, this)" if "m_hooksInstalled this"
    using that by (simp add: InstallHooks_def)
  have 2: "fst (InstallHooks env pid g this) = False
           \<and> snd (snd (InstallHooks env pid g this)) = this
           \<and> detour_table (fst (snd (InstallHooks env pid g this))) = detour_table g"
    if "\<not> m_hooksInstalled this"
      and "GetModuleHandleA env ''kernel32.dll'' = None
         \<or> (\<exists>k. GetModuleHandleA env ''kernel32.dll'' = Some k
                \<and> GetProcAddress env k ''GetVolumeInformationA'' = None)"
    using that by (auto simp: InstallHooks_def Let_def split: option.splits)
  have 3: "(fst (InstallHooks env pid g this) \<longleftrightarrow> DetourTransactionCommit_result env = NO_ERROR)
           \<and> (m_hooksInstalled (snd (snd (InstallHooks env pid g this)))
                \<longleftrightarrow> DetourTransactionCommit_result env = NO_ERROR)"
    if "\<not> m_hooksInstalled this" "GetModuleHandleA env ''kernel32.dll'' = Some k"
      "GetProcAddress env k ''GetVolumeInformationA'' = Some v"
    using that
    by (simp add: InstallHooks_def DetourTransactionCommit_def Let_def split: option.splits)
  have 4: "detour_table (fst (snd (InstallHooks env pid g this)))
                   = \<lparr>redirected =
                        (if DetourTransactionCommit_result env = NO_ERROR
                         then insert Hook_GetVolumeInformationA (redirected (detour_table g))
                         else redirected (detour_table g)),
                      transactions = transactions (detour_table g)
                        @ [([DetourAttach Hook_GetVolumeInformationA],
                            DetourTransactionCommit_result env)]\<rparr>"
    if "\<not> m_hooksInstalled this" "GetModuleHandleA env ''kernel32.dll'' = Some k"
      "GetProcAddress env k ''GetVolumeInformationA'' = Some v"
      "GetModuleHandleA env ''iphlpapi.dll'' = None" "g_originalGetAdaptersInfo g = None"
    using that
    by (simp add: InstallHooks_def DetourTransactionCommit_def Let_def)
  have 5: "detour_table (fst (snd (InstallHooks env pid g this)))
                   = \<lparr>redirected =
                        (if DetourTransactionCommit_result env = NO_ERROR
                         then insert Hook_GetAdaptersInfo
                                (insert Hook_GetVolumeInformationA (redirected (detour_table g)))
                         else redirected (detour_table g)),
                      transactions = transactions (detour_table g)
                        @ [([DetourAttach Hook_GetVolumeInformationA,
                             DetourAttach Hook_GetAdaptersInfo],
                            DetourTransactionCommit_result env)]\<rparr>"
    if "\<not> m_hooksInstalled this" "GetModuleHandleA env ''kernel32.dll'' = Some k"
      "GetProcAddress env k ''GetVolumeInformationA'' = Some v"
      "GetModuleHandleA env ''iphlpapi.dll'' = Some i"
      "GetProcAddress env i ''GetAdaptersInfo'' = Some a"
    using that
    by (simp add: InstallHooks_def DetourTransactionCommit_def Let_def)
  from 1 2 3 4 5 show ?thesis
    by blast
qed

theorem InstallHooks_resolution_witness:
  "\<not> m_hooksInstalled (snd demo_initialized)
   \<and> GetModuleHandleA demo_os_no_iphlpapi ''kernel32.dll'' = Some 1
   \<and> GetProcAddress demo_os_no_iphlpapi 1 ''GetVolumeInformationA'' = Some 100
   \<and> GetModuleHandleA demo_os_no_iphlpapi ''iphlpapi.dll'' = None
   \<and> g_originalGetAdaptersInfo (fst demo_initialized) = None
   \<and> fst (InstallHooks demo_os_no_iphlpapi 1234 (fst demo_initialized) (snd demo_initialized))
   \<and> m_hooksInstalled (snd (snd
        (InstallHooks demo_os_no_iphlpapi 1234 (fst demo_initialized) (snd demo_initialized))))
   \<and> detour_table (fst (snd
        (InstallHooks demo_os_no_iphlpapi 1234 (fst demo_initialized) (snd demo_initialized))))
      = \<lparr>redirected = {Hook_GetVolumeInformationA},
         transactions = [([DetourAttach Hook_GetVolumeInformationA], 0)]\<rparr>"
proof -
  have h: "\<not> m_hooksInstalled (snd demo_initialized)"
    "g_originalGetAdaptersInfo (fst demo_initialized) = None"
    "detour_table (fst demo_initialized) = \<lparr>redirected = {}, transactions = []\<rparr>"
    by (simp_all add: demo_initialized_eq new_WindowsSpoofer_def initial_globals_def)
  note t = InstallHooks_resolution [of "snd demo_initialized" demo_os_no_iphlpapi 1234 "fst demo_initialized"
      1 100 2 200, THEN conjunct2, rule_format, OF h(1), THEN conjunct2,
      rule_format, OF conjI, OF demo_no_iphlpapi(1,2)]
  have a: "fst (InstallHooks demo_os_no_iphlpapi 1234 (fst demo_initialized) (snd demo_initialized))"
    "m_hooksInstalled (snd (snd
        (InstallHooks demo_os_no_iphlpapi 1234 (fst demo_initialized) (snd demo_initialized))))"
    using t demo_no_iphlpapi(4) by blast+
  have b: "detour_table (fst (snd
        (InstallHooks demo_os_no_iphlpapi 1234 (fst demo_initialized) (snd demo_initialized))))
      = \<lparr>redirected = {Hook_GetVolumeInformationA},
         transactions = [([DetourAttach Hook_GetVolumeInformationA], 0)]\<rparr>"
    using t [THEN conjunct2, THEN conjunct2, THEN conjunct1, rule_format,
        OF conjI, OF demo_no_iphlpapi(3) h(2)] demo_no_iphlpapi(4)
    by (simp add: h(3) NO_ERROR_def)
  from h demo_no_iphlpapi a b show ?thesis
    by simp
qed

text \<open>
  The claim as stated fails: with hooks already marked installed the call returns true
  although \<^verbatim>\<open>kernel32.dll\<close> cannot be found, and with \<^verbatim>\<open>iphlpapi.dll\<close> absent and the
  volume entry point resolved the call returns false when the transaction does not commit.
\<close>

theorem InstallHooks_not_always_counterexample:
  "GetModuleHandleA demo_os_no_modules ''kernel32.dll'' = None
   \<and> InstallHooks demo_os_no_modules 1234 (fst demo_applied) (snd demo_applied)
       = (True, fst demo_applied, snd demo_applied)
   \<and> m_hooksInstalled (snd demo_applied)
   \<and> GetModuleHandleA demo_os_no_iphlpapi_commit_fails ''iphlpapi.dll'' = None
   \<and> GetModuleHandleA demo_os_no_iphlpapi_commit_fails ''kernel32.dll'' = Some 1
   \<and> GetProcAddress demo_os_no_iphlpapi_commit_fails 1 ''GetVolumeInformationA'' = Some 100
   \<and> fst (InstallHooks demo_os_no_iphlpapi_commit_fails 1234
            (fst demo_initialized) (snd demo_initialized)) = False"
  by (simp add: InstallHooks_def DetourTransactionCommit_def demo_applied_eq demo_initialized_eq
      demo_os_no_iphlpapi_commit_fails_def demo_os_no_iphlpapi_def demo_os_def NO_ERROR_def
      demo_os_no_modules_def Let_def new_WindowsSpoofer_def initial_globals_def)

section \<open>Random identifiers\<close>

text \<open>
  C8. Whatever the random draws, the set returned by \<open>GenerateRandomIdentifiers\<close> has the
  active flag false and process id 0; its hardware address has the form
  \<open>XX:XX:XX:XX:XX:XX\<close> with upper-case hexadecimal digits; its disk, volume, GPU, BIOS and
  motherboard serials have exactly 16, 8, 12, 10 and 14 characters, all of them upper-case
  hexadecimal digits.
\<close>

theorem GenerateRandomIdentifiers_format:
  "active (GenerateRandomIdentifiers rd) = False
   \<and> processId (GenerateRandomIdentifiers rd) = 0
   \<and> mac_pattern (macAddress (GenerateRandomIdentifiers rd))
   \<and> length (diskSerial (GenerateRandomIdentifiers rd)) = 16
   \<and> list_all upper_hex_digit (diskSerial (GenerateRandomIdentifiers rd))
   \<and> length (volumeSerial (GenerateRandomIdentifiers rd)) = 8
   \<and> list_all upper_hex_digit (volumeSerial (GenerateRandomIdentifiers rd))
   \<and> length (gpuId (GenerateRandomIdentifiers rd)) = 12
   \<and> list_all upper_hex_digit (gpuId (GenerateRandomIdentifiers rd))
   \<and> length (biosSerial (GenerateRandomIdentifiers rd)) = 10
   \<and> list_all upper_hex_digit (biosSerial (GenerateRandomIdentifiers rd))
   \<and> length (motherboardSerial (GenerateRandomIdentifiers rd)) = 14
   \<and> list_all upper_hex_digit (motherboardSerial (GenerateRandomIdentifiers rd))"
  by (simp add: GenerateRandomIdentifiers_def empty_SpoofedIdentifiers_def
      GenerateRandomMac_pattern GenerateRandomSerial_format)

section \<open>The volume-information handler\<close>

text \<open>
  C1, as the code has it. The handler returns the result code of the real query, and all
  out-parameters other than the serial are those of the real query. The serial is
  replaced exactly when the instance pointer is set, spoofing is active, the caller's
  serial pointer is not null, the spoofed volume serial is not empty and \<open>stoul\<close>
  converts it; then it is the converted value, otherwise the real value stays, and no
  error reaches the caller. About the conversion: a valid hexadecimal string of at most
  eight digits converts to its base-16 value; a valid hexadecimal string whose value does
  not fit 32 bits does not convert; a string whose first character is neither a
  hexadecimal digit, white space nor a sign (such as \<open>ZZZZ\<close>) does not convert.
\<close>

theorem HookedGetVolumeInformationA_serial:
  "fst (HookedGetVolumeInformationA env g this call) = fst (real_GetVolumeInformationA env call)
   \<and> (snd (HookedGetVolumeInformationA env g this call))\<lparr>lpVolumeSerialNumber := x\<rparr>
       = (snd (real_GetVolumeInformationA env call))\<lparr>lpVolumeSerialNumber := x\<rparr>
   \<and> lpVolumeSerialNumber (snd (HookedGetVolumeInformationA env g this call))
       = (if g_spooferInstance g \<and> IsSpoofingActive env this
             \<and> lpVolumeSerialNumber call \<noteq> None
             \<and> volumeSerial (m_currentSpoofed this) \<noteq> []
          then (case stoul (volumeSerial (m_currentSpoofed this)) of
                  Inr v \<Rightarrow> Some v
                | Inl e \<Rightarrow> lpVolumeSerialNumber (snd (real_GetVolumeInformationA env call)))
          else lpVolumeSerialNumber (snd (real_GetVolumeInformationA env call)))
   \<and> (valid_hex s \<and> length s \<le> 8 \<longrightarrow> stoul s = Inr (word_of_nat (hex_value s)))
   \<and> (valid_hex t \<and> 2 ^ 32 \<le> hex_value t \<longrightarrow> stoul t = Inl out_of_range)
   \<and> (\<not> isxdigit c \<and> \<not> isspace c \<and> c \<noteq> CHR ''-'' \<and> c \<noteq> CHR ''+'' \<longrightarrow>
        stoul (c # r) = Inl invalid_argument)"
proof -
  obtain result mem where r: "real_GetVolumeInformationA env call = (result, mem)"
    by (cases "real_GetVolumeInformationA env call")
  have "fst (HookedGetVolumeInformationA env g this call) = result"
    "(snd (HookedGetVolumeInformationA env g this call))\<lparr>lpVolumeSerialNumber := x\<rparr>
       = mem\<lparr>lpVolumeSerialNumber := x\<rparr>"
    "lpVolumeSerialNumber (snd (HookedGetVolumeInformationA env g this call))
       = (if g_spooferInstance g \<and> IsSpoofingActive env this
             \<and> lpVolumeSerialNumber call \<noteq> None
             \<and> volumeSerial (m_currentSpoofed this) \<noteq> []
          then (case stoul (volumeSerial (m_currentSpoofed this)) of
                  Inr v \<Rightarrow> Some v
                | Inl e \<Rightarrow> lpVolumeSerialNumber mem)
          else lpVolumeSerialNumber mem)"
    using r
    by (auto simp: HookedGetVolumeInformationA_def GetCurrentSpoofedValues_def Let_def
        split: sum.splits)
  note hook = this
  have rm: "fst (real_GetVolumeInformationA env call) = result"
    "snd (real_GetVolumeInformationA env call) = mem"
    using r by simp_all
  have parse: "valid_hex s \<and> length s \<le> 8 \<longrightarrow> stoul s = Inr (word_of_nat (hex_value s))"
    "valid_hex t \<and> 2 ^ 32 \<le> hex_value t \<longrightarrow> stoul t = Inl out_of_range"
    "\<not> isxdigit c \<and> \<not> isspace c \<and> c \<noteq> CHR ''-'' \<and> c \<noteq> CHR ''+'' \<longrightarrow>
        stoul (c # r) = Inl invalid_argument"
    by (simp_all add: stoul_short_hex stoul_valid_hex stoul_no_digit)
  show ?thesis
    unfolding rm
    by (intro conjI hook parse)
qed

theorem HookedGetVolumeInformationA_serial_witness:
  "valid_hex ''DEADBEEF'' \<and> length ''DEADBEEF'' \<le> 8
   \<and> valid_hex ''123456789'' \<and> 2 ^ 32 \<le> hex_value ''123456789''
   \<and> \<not> isxdigit CHR ''Z'' \<and> \<not> isspace CHR ''Z'' \<and> CHR ''Z'' \<noteq> CHR ''-'' \<and> CHR ''Z'' \<noteq> CHR ''+''
   \<and> real_GetVolumeInformationA demo_os demo_volume_call
       = (1, demo_volume_call\<lparr>lpVolumeSerialNumber := Some 0xCAFEBABE\<rparr>)
   \<and> fst (HookedGetVolumeInformationA demo_os (fst (demo_apply (volume_only ''DEADBEEF'')))
        (snd (demo_apply (volume_only ''DEADBEEF''))) demo_volume_call) = 1
   \<and> lpVolumeSerialNumber (snd (HookedGetVolumeInformationA demo_os
        (fst (demo_apply (volume_only ''DEADBEEF'')))
        (snd (demo_apply (volume_only ''DEADBEEF''))) demo_volume_call)) = Some 0xDEADBEEF
   \<and> stoul ''ZZZZ'' = Inl invalid_argument
   \<and> lpVolumeSerialNumber (snd (HookedGetVolumeInformationA demo_os
        (fst (demo_apply (volume_only ''ZZZZ'')))
        (snd (demo_apply (volume_only ''ZZZZ''))) demo_volume_call)) = Some 0xCAFEBABE"
proof -
  note t1 = HookedGetVolumeInformationA_serial [of demo_os "fst (demo_apply (volume_only ''DEADBEEF''))"
      "snd (demo_apply (volume_only ''DEADBEEF''))" demo_volume_call "Some 0"
      "''DEADBEEF''" "''123456789''" "CHR ''Z''" "''ZZZ''"]
  note t2 = HookedGetVolumeInformationA_serial [of demo_os "fst (demo_apply (volume_only ''ZZZZ''))"
      "snd (demo_apply (volume_only ''ZZZZ''))" demo_volume_call "Some 0"
      "''DEADBEEF''" "''123456789''" "CHR ''Z''" "''ZZZ''"]
  have s1: "stoul ''DEADBEEF'' = Inr 0xDEADBEEF" "stoul ''ZZZZ'' = Inl invalid_argument"
    using t1 valid_hex_examples Z_no_digit by simp_all
  have a: "fst (HookedGetVolumeInformationA demo_os (fst (demo_apply (volume_only ''DEADBEEF'')))
        (snd (demo_apply (volume_only ''DEADBEEF''))) demo_volume_call) = 1"
    using t1 [THEN conjunct1] by (simp add: demo_real_volume)
  have b: "lpVolumeSerialNumber (snd (HookedGetVolumeInformationA demo_os
        (fst (demo_apply (volume_only ''DEADBEEF'')))
        (snd (demo_apply (volume_only ''DEADBEEF''))) demo_volume_call)) = Some 0xDEADBEEF"
    using t1 [THEN conjunct2, THEN conjunct2, THEN conjunct1]
    by (simp add: demo_real_volume demo_apply_active volume_only_def s1
        demo_volume_call_serial)
  have c: "lpVolumeSerialNumber (snd (HookedGetVolumeInformationA demo_os
        (fst (demo_apply (volume_only ''ZZZZ'')))
        (snd (demo_apply (volume_only ''ZZZZ''))) demo_volume_call)) = Some 0xCAFEBABE"
    using t2 [THEN conjunct2, THEN conjunct2, THEN conjunct1]
    by (simp add: demo_real_volume demo_apply_active volume_only_def s1
        demo_volume_call_serial)
  show ?thesis
    using a b c s1(2) valid_hex_examples Z_no_digit by (simp add: demo_real_volume)
qed

text \<open>
  The claim as stated fails. The string \<open>12ZZ\<close> is not valid hexadecimal, yet the serial
  is overwritten, with \<open>0x12\<close>; the string \<open>123456789\<close> is valid hexadecimal, yet the
  serial keeps its real value \<open>0xCAFEBABE\<close>, since the number does not fit 32 bits.
\<close>

theorem HookedGetVolumeInformationA_partial_parse_counterexample:
  "\<not> valid_hex ''12ZZ''
   \<and> g_spooferInstance (fst (demo_apply (volume_only ''12ZZ'')))
   \<and> IsSpoofingActive demo_os (snd (demo_apply (volume_only ''12ZZ'')))
   \<and> volumeSerial (m_currentSpoofed (snd (demo_apply (volume_only ''12ZZ'')))) = ''12ZZ''
   \<and> lpVolumeSerialNumber (snd (real_GetVolumeInformationA demo_os demo_volume_call))
       = Some 0xCAFEBABE
   \<and> lpVolumeSerialNumber (snd (HookedGetVolumeInformationA demo_os
         (fst (demo_apply (volume_only ''12ZZ''))) (snd (demo_apply (volume_only ''12ZZ'')))
         demo_volume_call)) = Some 0x12
   \<and> valid_hex ''123456789''
   \<and> IsSpoofingActive demo_os (snd (demo_apply (volume_only ''123456789'')))
   \<and> volumeSerial (m_currentSpoofed (snd (demo_apply (volume_only ''123456789''))))
       = ''123456789''
   \<and> lpVolumeSerialNumber (snd (HookedGetVolumeInformationA demo_os
         (fst (demo_apply (volume_only ''123456789'')))
         (snd (demo_apply (volume_only ''123456789''))) demo_volume_call)) = Some 0xCAFEBABE"
proof -
  have s: "stoul ''12ZZ'' = Inr 0x12" "stoul ''123456789'' = Inl out_of_range"
    by (simp_all add: stoul_defs Let_def)
  have v: "volumeSerial (volume_only x) = x" for x
    by (simp add: volume_only_def)
  show ?thesis
    by (simp add: HookedGetVolumeInformationA_def GetCurrentSpoofedValues_def demo_real_volume
        demo_apply_active v s valid_hex_examples demo_volume_call_serial Let_def)
qed

section \<open>The adapter-enumeration handler\<close>

text \<open>
  C2, as the code has it. The handler returns the result code of the real query and the
  same sequence of records, each with every field other than the address bytes as the real
  query left it. Nothing at all is changed unless the instance pointer is set, spoofing
  is active, the real query returned \<^verbatim>\<open>NO_ERROR\<close>, the caller's buffer pointer is not
  null and the spoof string has at least 12 characters. In that case, byte \<open>i\<close> of a record is replaced exactly when \<open>i < 6\<close>, \<open>i\<close> is
  below the record's address length, and \<open>stoul\<close> converts each of the two-character
  pieces at positions \<open>2j, 2j+1\<close> for all \<open>j \<le> i\<close>; it is then the low byte of the value
  converted from piece \<open>i\<close>; every other byte keeps its real value, and each record is
  treated independently of the others. Two hexadecimal digits convert to their base-16
  value. For the spoof string \<open>AABBCCDDEEFF\<close>, byte \<open>i\<close> of every record, for \<open>i\<close> below 6
  and below the record's address length, is byte \<open>i\<close> of \<open>AA BB CC DD EE FF\<close>.
\<close>

theorem HookedGetAdaptersInfo_addresses:
  "fst (HookedGetAdaptersInfo env g this call) = fst (real_GetAdaptersInfo env call)
   \<and> SizePointer (snd (HookedGetAdaptersInfo env g this call))
       = SizePointer (snd (real_GetAdaptersInfo env call))
   \<and> length (AdapterInfo (snd (HookedGetAdaptersInfo env g this call)))
       = length (AdapterInfo (snd (real_GetAdaptersInfo env call)))
   \<and> (k < length (AdapterInfo (snd (real_GetAdaptersInfo env call))) \<longrightarrow>
        (AdapterInfo (snd (HookedGetAdaptersInfo env g this call)) ! k)\<lparr>Address := x\<rparr>
          = (AdapterInfo (snd (real_GetAdaptersInfo env call)) ! k)\<lparr>Address := x\<rparr>
        \<and> length (Address (AdapterInfo (snd (HookedGetAdaptersInfo env g this call)) ! k))
          = length (Address (AdapterInfo (snd (real_GetAdaptersInfo env call)) ! k)))
   \<and> (\<not> (g_spooferInstance g \<and> IsSpoofingActive env this
           \<and> fst (real_GetAdaptersInfo env call) = NO_ERROR \<and> AdapterInfo call \<noteq> []
           \<and> 12 \<le> length (macAddress (m_currentSpoofed this))) \<longrightarrow>
        snd (HookedGetAdaptersInfo env g this call) = snd (real_GetAdaptersInfo env call))
   \<and> (g_spooferInstance g \<and> IsSpoofingActive env this
        \<and> fst (real_GetAdaptersInfo env call) = NO_ERROR \<and> AdapterInfo call \<noteq> []
        \<and> 12 \<le> length (macAddress (m_currentSpoofed this))
        \<and> k < length (AdapterInfo (snd (real_GetAdaptersInfo env call)))
        \<and> i < length (Address (AdapterInfo (snd (real_GetAdaptersInfo env call)) ! k)) \<longrightarrow>
        Address (AdapterInfo (snd (HookedGetAdaptersInfo env g this call)) ! k) ! i
          = (if i < 6
                \<and> i < unat (AddressLength (AdapterInfo (snd (real_GetAdaptersInfo env call)) ! k))
                \<and> (\<forall>j. j \<le> i \<longrightarrow>
                      \<not> isl (stoul (substr (macAddress (m_currentSpoofed this)) (j * 2) 2)))
             then ucast (projr (stoul (substr (macAddress (m_currentSpoofed this)) (i * 2) 2)))
             else Address (AdapterInfo (snd (real_GetAdaptersInfo env call)) ! k) ! i)
        \<and> (macAddress (m_currentSpoofed this) = ''AABBCCDDEEFF'' \<and> i < 6
             \<and> i < unat (AddressLength (AdapterInfo (snd (real_GetAdaptersInfo env call)) ! k))
             \<longrightarrow>
             Address (AdapterInfo (snd (HookedGetAdaptersInfo env g this call)) ! k) ! i
               = [0xAA, 0xBB, 0xCC, 0xDD, 0xEE, 0xFF] ! i))
   \<and> (isxdigit a \<and> isxdigit b \<longrightarrow>
        stoul [a, b] = Inr (word_of_nat (16 * the (hex_digit a) + the (hex_digit b))))"
proof -
  define mem where "mem = snd (real_GetAdaptersInfo env call)"
  define mac where "mac = macAddress (m_currentSpoofed this)"
  define hooked where "hooked = HookedGetAdaptersInfo env g this call"
  define on where "on \<longleftrightarrow> g_spooferInstance g \<and> IsSpoofingActive env this
           \<and> fst (real_GetAdaptersInfo env call) = NO_ERROR \<and> AdapterInfo call \<noteq> []
           \<and> 12 \<le> length mac"
  have eq: "hooked = (fst (real_GetAdaptersInfo env call),
      if on then mem\<lparr>AdapterInfo := spoof_adapters mac (AdapterInfo mem)\<rparr> else mem)"
    by (simp add: hooked_def on_def mem_def mac_def HookedGetAdaptersInfo_eq)
  have 1: "fst hooked = fst (real_GetAdaptersInfo env call)"
    by (simp add: eq)
  have 2: "SizePointer (snd hooked) = SizePointer mem"
    by (simp add: eq)
  have 3: "length (AdapterInfo (snd hooked)) = length (AdapterInfo mem)"
    by (simp add: eq spoof_adapters_map)
  have 4: "(AdapterInfo (snd hooked) ! k)\<lparr>Address := x\<rparr> = (AdapterInfo mem ! k)\<lparr>Address := x\<rparr>
        \<and> length (Address (AdapterInfo (snd hooked) ! k)) = length (Address (AdapterInfo mem ! k))"
    if "k < length (AdapterInfo mem)"
    using that by (simp add: eq spoof_adapters_map spoof_bytes_length)
  have 5: "snd hooked = mem" if "\<not> on"
    using that by (simp add: eq)
  have 6: "Address (AdapterInfo (snd hooked) ! k) ! i
          = (if i < 6 \<and> i < unat (AddressLength (AdapterInfo mem ! k))
                \<and> (\<forall>j. j \<le> i \<longrightarrow> \<not> isl (stoul (substr mac (j * 2) 2)))
             then ucast (projr (stoul (substr mac (i * 2) 2)))
             else Address (AdapterInfo mem ! k) ! i)"
    if "on" "k < length (AdapterInfo mem)" "i < length (Address (AdapterInfo mem ! k))"
  proof -
    have "12 \<le> length mac"
      using that(1) by (simp add: on_def)
    then have "Address (AdapterInfo (snd hooked) ! k) ! i
      = spoof_bytes mac (AddressLength (AdapterInfo mem ! k)) 0 (Address (AdapterInfo mem ! k)) ! i"
      using that by (simp add: eq spoof_adapters_map)
    then show ?thesis
      using that(3) by (simp add: spoof_bytes_nth)
  qed
  have 7: "Address (AdapterInfo (snd hooked) ! k) ! i = [0xAA, 0xBB, 0xCC, 0xDD, 0xEE, 0xFF] ! i"
    if "on" "k < length (AdapterInfo mem)" "i < length (Address (AdapterInfo mem ! k))"
      "mac = ''AABBCCDDEEFF''" "i < 6" "i < unat (AddressLength (AdapterInfo mem ! k))"
  proof -
    have ok: "\<forall>j. j \<le> i \<longrightarrow> \<not> isl (stoul (substr mac (j * 2) 2))"
      using that(4,5) by (simp add: stoul_AABBCCDDEEFF)
    have "Address (AdapterInfo (snd hooked) ! k) ! i
        = ucast (projr (stoul (substr mac (i * 2) 2)))"
      unfolding 6 [OF that(1,2,3)] using that(5,6) ok by (simp only: if_P [OF conjI [OF _ conjI]])
    also have "\<dots> = ucast ([0xAA, 0xBB, 0xCC, 0xDD, 0xEE, 0xFF :: 32 word] ! i)"
      using that(4,5) by (simp add: stoul_AABBCCDDEEFF)
    also have "\<dots> = [0xAA, 0xBB, 0xCC, 0xDD, 0xEE, 0xFF] ! i"
    proof -
      have "i \<in> {0, 1, 2, 3, 4, 5}"
        using that(5) by auto
      then show ?thesis
        by (elim insertE emptyE) simp_all
    qed
    finally show ?thesis .
  qed
  have 8: "isxdigit a \<and> isxdigit b \<longrightarrow>
        stoul [a, b] = Inr (word_of_nat (16 * the (hex_digit a) + the (hex_digit b)))"
    by (simp add: stoul_two_hex)
  from 1 2 3 4 5 6 7 8 show ?thesis
    unfolding mem_def mac_def hooked_def on_def by blast
qed

theorem HookedGetAdaptersInfo_addresses_witness:
  "g_spooferInstance (fst (demo_apply (mac_only ''AABBCCDDEEFF'')))
   \<and> IsSpoofingActive demo_os (snd (demo_apply (mac_only ''AABBCCDDEEFF'')))
   \<and> fst (real_GetAdaptersInfo demo_os demo_adapters_call) = NO_ERROR
   \<and> AdapterInfo demo_adapters_call \<noteq> []
   \<and> macAddress (m_currentSpoofed (snd (demo_apply (mac_only ''AABBCCDDEEFF'')))) = ''AABBCCDDEEFF''
   \<and> AdapterInfo (snd (real_GetAdaptersInfo demo_os demo_adapters_call)) = two_adapters
   \<and> Address (AdapterInfo (snd (HookedGetAdaptersInfo demo_os
        (fst (demo_apply (mac_only ''AABBCCDDEEFF''))) (snd (demo_apply (mac_only ''AABBCCDDEEFF'')))
        demo_adapters_call)) ! 1) ! 3 = 0xDD
   \<and> isxdigit CHR ''A'' \<and> isxdigit CHR ''B'' \<and> stoul ''AB'' = Inr 0xAB
   \<and> \<not> IsSpoofingActive demo_os_process_gone (snd (demo_apply (mac_only ''AABBCCDDEEFF'')))
   \<and> snd (HookedGetAdaptersInfo demo_os_process_gone
        (fst (demo_apply (mac_only ''AABBCCDDEEFF''))) (snd (demo_apply (mac_only ''AABBCCDDEEFF'')))
        demo_adapters_call) = demo_adapters_call\<lparr>AdapterInfo := two_adapters\<rparr>"
proof -
  let ?g = "fst (demo_apply (mac_only ''AABBCCDDEEFF''))"
  let ?obj = "snd (demo_apply (mac_only ''AABBCCDDEEFF''))"
  note t = HookedGetAdaptersInfo_addresses [of demo_os ?g ?obj demo_adapters_call 1 "[]" 3 "CHR ''A''" "CHR ''B''"]
  note u = HookedGetAdaptersInfo_addresses [of demo_os_process_gone ?g ?obj demo_adapters_call 1 "[]" 3
      "CHR ''A''" "CHR ''B''"]
  have h: "g_spooferInstance ?g" "IsSpoofingActive demo_os ?obj"
    "fst (real_GetAdaptersInfo demo_os demo_adapters_call) = NO_ERROR"
    "AdapterInfo demo_adapters_call \<noteq> []"
    "macAddress (m_currentSpoofed ?obj) = ''AABBCCDDEEFF''"
    "AdapterInfo (snd (real_GetAdaptersInfo demo_os demo_adapters_call)) = two_adapters"
    "isxdigit CHR ''A''" "isxdigit CHR ''B''"
    "\<not> IsSpoofingActive demo_os_process_gone ?obj"
    by (simp_all add: demo_apply_active mac_only_mac demo_real_adapters NO_ERROR_def
        isxdigit_def hex_digit_def demo_gone_inactive demo_adapters_call_def)
  have prem: "g_spooferInstance ?g \<and> IsSpoofingActive demo_os ?obj
      \<and> fst (real_GetAdaptersInfo demo_os demo_adapters_call) = NO_ERROR
      \<and> AdapterInfo demo_adapters_call \<noteq> []
      \<and> 12 \<le> length (macAddress (m_currentSpoofed ?obj))
      \<and> 1 < length (AdapterInfo (snd (real_GetAdaptersInfo demo_os demo_adapters_call)))
      \<and> 3 < length (Address (AdapterInfo (snd (real_GetAdaptersInfo demo_os demo_adapters_call)) ! 1))"
    using h by (simp add: two_adapters_facts demo_adapters_call_def)
  have q: "macAddress (m_currentSpoofed ?obj) = ''AABBCCDDEEFF'' \<and> 3 < (6 :: nat)
      \<and> 3 < unat (AddressLength (AdapterInfo (snd (real_GetAdaptersInfo demo_os demo_adapters_call)) ! 1))"
    using h by (simp add: two_adapters_facts)
  have "Address (AdapterInfo (snd (HookedGetAdaptersInfo demo_os ?g ?obj
        demo_adapters_call)) ! 1) ! 3 = [0xAA, 0xBB, 0xCC, 0xDD, 0xEE, 0xFF] ! 3"
    by (rule t [THEN conjunct2, THEN conjunct2, THEN conjunct2, THEN conjunct2, THEN conjunct2,
        THEN conjunct1, THEN mp, OF prem, THEN conjunct2, THEN mp, OF q])
  then have a: "Address (AdapterInfo (snd (HookedGetAdaptersInfo demo_os ?g ?obj
        demo_adapters_call)) ! 1) ! 3 = 0xDD"
    by simp
  have b: "stoul ''AB'' = Inr 0xAB"
    using t [THEN conjunct2, THEN conjunct2, THEN conjunct2, THEN conjunct2, THEN conjunct2,
        THEN conjunct2] h
    by (simp add: hex_digit_def)
  have c: "snd (HookedGetAdaptersInfo demo_os_process_gone ?g ?obj demo_adapters_call)
      = demo_adapters_call\<lparr>AdapterInfo := two_adapters\<rparr>"
    using u [THEN conjunct2, THEN conjunct2, THEN conjunct2, THEN conjunct2, THEN conjunct1] h
    by (simp add: demo_real_adapters_gone)
  from h a b c show ?thesis
    by simp
qed

text \<open>
  The claim as stated fails. With the non-empty spoof string \<open>AABB\<close>, whose first two
  characters decode to \<open>0xAA\<close>, the first byte of a six-byte adapter address keeps its real
  value \<open>0x00\<close>. With the spoof string \<open>AABBCCDDEEFF\<close>, an adapter whose address length is
  4 has only its first four bytes replaced, so its first six bytes are not
  \<open>AA BB CC DD EE FF\<close>.
\<close>

theorem HookedGetAdaptersInfo_short_mac_counterexample:
  "g_spooferInstance (fst (demo_apply (mac_only ''AABB'')))
   \<and> IsSpoofingActive demo_os (snd (demo_apply (mac_only ''AABB'')))
   \<and> macAddress (m_currentSpoofed (snd (demo_apply (mac_only ''AABB'')))) = ''AABB''
   \<and> AdapterInfo demo_adapters_call \<noteq> []
   \<and> real_GetAdaptersInfo demo_os demo_adapters_call
       = (NO_ERROR, demo_adapters_call\<lparr>AdapterInfo := two_adapters\<rparr>)
   \<and> AddressLength (two_adapters ! 0) = 6
   \<and> stoul (substr ''AABB'' 0 2) = Inr 0xAA
   \<and> Address (AdapterInfo (snd (HookedGetAdaptersInfo demo_os
        (fst (demo_apply (mac_only ''AABB''))) (snd (demo_apply (mac_only ''AABB'')))
        demo_adapters_call)) ! 0) ! 0 = 0x00
   \<and> IsSpoofingActive demo_os (snd (demo_apply (mac_only ''AABBCCDDEEFF'')))
   \<and> take 6 (Address (AdapterInfo (snd (HookedGetAdaptersInfo demo_os
        (fst (demo_apply (mac_only ''AABBCCDDEEFF''))) (snd (demo_apply (mac_only ''AABBCCDDEEFF'')))
        demo_adapters_call)) ! 1))
       = [0xAA, 0xBB, 0xCC, 0xDD, 0x00, 0x00]"
proof -
  have s: "stoul (substr ''AABB'' 0 2) = Inr 0xAA"
    by (simp add: substr_def stoul_defs Let_def)
  have p: "stoul (substr ''AABBCCDDEEFF'' (j * 2) 2) = Inr ([0xAA, 0xBB, 0xCC, 0xDD, 0xEE, 0xFF] ! j)"
    if "j < 6" for j
    using that by (rule stoul_AABBCCDDEEFF)
  have b: "spoof_bytes ''AABBCCDDEEFF'' 4 0 [0x0A, 0x0B, 0x0C, 0x0D, 0, 0, 0, 0]
      = [0xAA, 0xBB, 0xCC, 0xDD, 0, 0, 0, 0]"
    using p [of 0] p [of 1] p [of 2] p [of 3]
    by (simp add: spoof_bytes.simps)
  show ?thesis
    by (simp add: HookedGetAdaptersInfo_eq demo_apply_active mac_only_mac demo_real_adapters
        NO_ERROR_def two_adapters_facts spoof_adapters_map s b demo_adapters_call_buffer)
qed

end
